theory Spec2Isabelle
  imports Complex_Main "HOL-Library.Word"
begin

unbundle bit_operations_syntax

section \<open>Values of the program\<close>

text \<open>
  The component under study is the chat panel of the virtual tour guide
  (\<^verbatim>\<open>Chatbot\<close>, a React function component): its PCM codec, its playback scheduler
  (\<^verbatim>\<open>scheduleAudio\<close>), its text-to-speech queue (\<^verbatim>\<open>processTtsQueue\<close>,
  \<^verbatim>\<open>processNextTts\<close>), its live voice session (\<^verbatim>\<open>startLiveSession\<close>,
  \<^verbatim>\<open>handleLiveMessage\<close>, \<^verbatim>\<open>stopLiveSession\<close>) and the streaming loop of
  \<^verbatim>\<open>handleSendMessage\<close>.

  A JavaScript string is a sequence of 16-bit code units; \<^verbatim>\<open>length\<close>, \<^verbatim>\<open>trim\<close>,
  \<^verbatim>\<open>endsWith\<close> and the regular expression \<^verbatim>\<open>/[.!?]/\<close> all work on code units.
  Bytes of a \<^verbatim>\<open>Uint8Array\<close> are 8-bit words, elements of an \<^verbatim>\<open>Int16Array\<close> are
  16-bit words read as two's complement.

  Numbers are IEEE doubles in the program and real numbers here. The model therefore has
  no NaN and no rounding: sample values (a 16-bit integer divided by \<open>2^15\<close>, or a
  single-precision sample times 32767 or 32768) are exact in both, device times and
  durations are idealised.
\<close>

type_synonym byte = "8 word"
type_synonym int16 = "16 word"
type_synonym jschar = "16 word"
type_synonym jsstring = "jschar list"

text \<open>An ASCII literal as a JavaScript string.\<close>

definition js :: "string \<Rightarrow> jsstring" where
  "js cs = map (\<lambda>c. of_nat (of_char c)) cs"

text \<open>
  The code units that \<^verbatim>\<open>String.prototype.trim\<close> removes (ECMAScript WhiteSpace and
  LineTerminator). \<^verbatim>\<open>!text.trim()\<close> holds exactly when every code unit is one of them.
\<close>

definition isWhiteSpace :: "jschar \<Rightarrow> bool" where
  "isWhiteSpace c =
     (c = 9 \<or> c = 10 \<or> c = 11 \<or> c = 12 \<or> c = 13 \<or> c = 32 \<or> c = 160 \<or> c = 5760
      \<or> (8192 \<le> c \<and> c \<le> 8202) \<or> c = 8232 \<or> c = 8233 \<or> c = 8239 \<or> c = 8287
      \<or> c = 12288 \<or> c = 65279)"

definition isBlank :: "jsstring \<Rightarrow> bool" where
  "isBlank txt = list_all isWhiteSpace txt"

text \<open>\<^verbatim>\<open>chunk.text.match(/[.!?]/)\<close>: some code unit is a full stop, \<open>!\<close> or \<open>?\<close>.\<close>

definition hasSentenceEnd :: "jsstring \<Rightarrow> bool" where
  "hasSentenceEnd txt = list_ex (\<lambda>c. c = 46 \<or> c = 33 \<or> c = 63) txt"

definition endsWith :: "jsstring \<Rightarrow> jsstring \<Rightarrow> bool" where
  "endsWith txt sfx =
     (length sfx \<le> length txt \<and> drop (length txt - length sfx) txt = sfx)"

text \<open>The three full stops \<^verbatim>\<open>'...'\<close> that mark a transcript in progress.\<close>

definition ellipsis :: jsstring where
  "ellipsis = [46, 46, 46]"

text \<open>
  The string literals of the source that are shown to the user, as code units: the
  greeting of the first message, the three live-session error notices (lines 443, 454
  and 469) and the chat error reply (line 538).
\<close>

definition greeting :: jsstring where
  "greeting = [88, 105, 110, 32, 99, 104, 224, 111, 33, 32, 84, 244, 105, 32, 108, 224, 32,
     104, 432, 7899, 110, 103, 32, 100, 7851, 110, 32, 118, 105, 234, 110, 32, 7843, 111, 32,
     99, 7911, 97, 32, 98, 7841, 110, 46, 32, 72, 227, 121, 32, 104, 7887, 105, 32, 116, 244,
     105, 32, 98, 7845, 116, 32, 99, 7913, 32, 273, 105, 7873, 117, 32, 103, 236, 32, 118,
     7873, 32, 81, 117, 7843, 110, 103, 32, 84, 114, 7883, 32, 110, 104, 233, 33]"

definition inputInitError :: jsstring where
  "inputInitError = [76, 7895, 105, 32, 107, 104, 7903, 105, 32, 116, 7841, 111, 32, 226, 109,
     32, 116, 104, 97, 110, 104, 32, 273, 7847, 117, 32, 118, 224, 111, 46]"

definition serverError :: jsstring where
  "serverError = [76, 7895, 105, 32, 107, 7871, 116, 32, 110, 7889, 105, 32, 109, 225, 121, 32,
     99, 104, 7911, 46, 32, 86, 117, 105, 32, 108, 242, 110, 103, 32, 116, 104, 7917, 32, 108,
     7841, 105, 32, 115, 97, 117, 46]"

definition micError :: jsstring where
  "micError = [75, 104, 244, 110, 103, 32, 116, 104, 7875, 32, 116, 114, 117, 121, 32, 99,
     7853, 112, 32, 109, 105, 99, 114, 111, 112, 104, 111, 110, 101, 32, 104, 111, 7863, 99,
     32, 108, 7895, 105, 32, 107, 7871, 116, 32, 110, 7889, 105, 46]"

definition sendError :: jsstring where
  "sendError = [88, 105, 110, 32, 108, 7895, 105, 44, 32, 116, 244, 105, 32, 103, 7863, 112,
     32, 115, 7921, 32, 99, 7889, 32, 107, 104, 105, 32, 107, 7871, 116, 32, 110, 7889, 105, 46]"

section \<open>PCM codec\<close>

text \<open>
  Audio payloads travel as base64 text (\<^verbatim>\<open>encode\<close> is \<^verbatim>\<open>btoa\<close> over the bytes,
  \<^verbatim>\<open>decode\<close> is \<^verbatim>\<open>atob\<close>). The text is represented by the bytes it stands for, so
  both functions are the identity here; the empty text stands for no bytes, and text
  that \<^verbatim>\<open>atob\<close> rejects has no representation.
\<close>

type_synonym base64 = "byte list"

definition encode :: "byte list \<Rightarrow> base64" where
  "encode bytes = bytes"

definition decode :: "base64 \<Rightarrow> byte list" where
  "decode b64 = b64"

text \<open>
  The only exception the modelled code can meet: \<^verbatim>\<open>createBuffer\<close> of the Web Audio
  API raises \<^verbatim>\<open>NotSupportedError\<close> when an argument is zero or outside the range the
  audio context supports.
\<close>

datatype error = NotSupportedError

text \<open>
  Storing a number into an \<^verbatim>\<open>Int16Array\<close> truncates it towards zero and keeps the low
  16 bits.
\<close>

definition toInt16 :: "real \<Rightarrow> int16" where
  "toInt16 v = word_of_int (if v < 0 then \<lceil>v\<rceil> else \<lfloor>v\<rfloor>)"

text \<open>
  \<^verbatim>\<open>new Uint8Array(int16.buffer)\<close>: each element as two bytes, low byte first.
  \<^verbatim>\<open>new Int16Array(data.buffer, data.byteOffset, sampleLength)\<close>: the inverse view; a
  fractional \<^verbatim>\<open>sampleLength\<close> is truncated, so a trailing single byte is not part of
  the view.
\<close>

definition int16_bytes :: "int16 \<Rightarrow> byte list" where
  "int16_bytes w = [ucast w, ucast (drop_bit 8 w)]"

fun int16_view :: "byte list \<Rightarrow> int16 list" where
  "int16_view (lo # hi # rest) = (ucast lo OR push_bit 8 (ucast hi)) # int16_view rest"
| "int16_view _ = []"

record audio_buffer =
  numberOfChannels :: nat
  frames :: nat
  sampleRate :: nat
  channelData :: "real list list"

definition duration :: "audio_buffer \<Rightarrow> real" where
  "duration b = real (frames b) / real (sampleRate b)"

text \<open>
  What the decoder uses of its argument \<^verbatim>\<open>ctx: AudioContext\<close>: the number of channels
  and the sample rates for which the browser creates a buffer. The limits belong to the
  browser; the Web Audio API requires every implementation to support at least 32
  channels and the sample rates from 8000 to 96000 (\<open>requiredLimits\<close>, \<open>conforming\<close>).
\<close>

record context_limits =
  maxChannels :: nat
  minSampleRate :: nat
  maxSampleRate :: nat

definition supported :: "context_limits \<Rightarrow> nat \<Rightarrow> nat \<Rightarrow> bool" where
  "supported ctx numChannels rate \<longleftrightarrow>
     0 < numChannels \<and> numChannels \<le> maxChannels ctx
     \<and> 0 < rate \<and> minSampleRate ctx \<le> rate \<and> rate \<le> maxSampleRate ctx"

definition requiredLimits :: context_limits where
  "requiredLimits = \<lparr>maxChannels = 32, minSampleRate = 8000, maxSampleRate = 96000\<rparr>"

definition conforming :: "context_limits \<Rightarrow> bool" where
  "conforming ctx \<longleftrightarrow>
     32 \<le> maxChannels ctx \<and> minSampleRate ctx \<le> 8000 \<and> 96000 \<le> maxSampleRate ctx"

text \<open>
  \<^verbatim>\<open>ctx.createBuffer(numChannels, length, rate)\<close>: a silent buffer. Its arguments are
  converted to unsigned integers by truncation (the caller below passes the truncated
  frame count). It raises \<^verbatim>\<open>NotSupportedError\<close> when the channel count or the sample
  rate is zero or outside the range the context supports, and when the length is zero.
\<close>

definition createBuffer :: "context_limits \<Rightarrow> nat \<Rightarrow> nat \<Rightarrow> nat \<Rightarrow> error + audio_buffer" where
  "createBuffer ctx numChannels len rate =
     (if \<not> supported ctx numChannels rate \<or> len = 0 then Inl NotSupportedError
      else Inr \<lparr>numberOfChannels = numChannels, frames = len, sampleRate = rate,
                channelData = replicate numChannels (replicate len 0)\<rparr>)"

text \<open>
  \<^verbatim>\<open>decodeAudioData\<close> (lines 86-121). \<^verbatim>\<open>sampleLength = data.length / 2\<close> may be
  fractional; the two typed arrays get its integer part, and the frame count passed to
  \<^verbatim>\<open>createBuffer\<close> is the integer part of \<^verbatim>\<open>sampleLength / numChannels\<close>. The
  function contains no check of the length; it fails only where \<^verbatim>\<open>createBuffer\<close>
  does.
\<close>

definition decodeAudioData ::
  "byte list \<Rightarrow> context_limits \<Rightarrow> nat \<Rightarrow> nat \<Rightarrow> error + audio_buffer" where
  "decodeAudioData data ctx sourceSampleRate numChannels =
     (let float32 = map (\<lambda>w. real_of_int (sint w) / 32768) (int16_view data)
      in case createBuffer ctx numChannels (length data div 2 div numChannels) sourceSampleRate of
           Inl e \<Rightarrow> Inl e
         | Inr audioBuffer \<Rightarrow>
             Inr (audioBuffer\<lparr>channelData :=
                    (if numChannels = 1 then [float32]
                     else map (\<lambda>ch. map (\<lambda>i. float32 ! (i * numChannels + ch))
                                          [0..<frames audioBuffer])
                              [0..<numChannels])\<rparr>))"

text \<open>
  \<^verbatim>\<open>createPcmBlob\<close> (lines 474-485): clamp, scale (negative samples by \<^verbatim>\<open>0x8000\<close>,
  the others by \<^verbatim>\<open>0x7FFF\<close>), store as 16-bit integers, view as bytes, encode.
\<close>

definition clampSample :: "real \<Rightarrow> real" where
  "clampSample x = max (- 1) (min 1 x)"

definition pcmInt16 :: "real list \<Rightarrow> int16 list" where
  "pcmInt16 data =
     map (\<lambda>x. let s = clampSample x in toInt16 (if s < 0 then s * 32768 else s * 32767)) data"

definition pcmBytes :: "real list \<Rightarrow> byte list" where
  "pcmBytes data = concat (map int16_bytes (pcmInt16 data))"

record gemini_blob =
  blobData :: base64
  mimeType :: string

definition createPcmBlob :: "real list \<Rightarrow> gemini_blob" where
  "createPcmBlob data = \<lparr>blobData = encode (pcmBytes data), mimeType = ''audio/pcm;rate=16000''\<rparr>"

text \<open>
  For stating what the decoder returns: sample \<open>k\<close> of a byte sequence read as
  little-endian signed 16-bit PCM and divided by 32768, by arithmetic on the two bytes.
\<close>

definition pcmSample :: "byte list \<Rightarrow> nat \<Rightarrow> real" where
  "pcmSample data k =
     real_of_int (sint (word_of_nat (unat (data ! (2 * k)) + 256 * unat (data ! (2 * k + 1)))
                        :: int16)) / 32768"

section \<open>State of the component\<close>

datatype role = User | Model

record message =
  role :: role
  msgText :: jsstring
  imageData :: "jsstring option"

record audio_item =
  audioData :: base64
  messageIndex :: "nat option"

text \<open>
  What the output device has been asked to play: one entry per
  \<^verbatim>\<open>source.start(t)\<close>, in the order of the calls, with the flag that
  \<^verbatim>\<open>source.stop()\<close> sets.
\<close>

record source_node =
  startTime :: real
  buffer :: audio_buffer
  stopped :: bool

datatype context_state = Running | Suspended

text \<open>
  \<^verbatim>\<open>scheduleAudio\<close> is an \<^verbatim>\<open>async\<close> function: between its \<^verbatim>\<open>await\<close>s other
  handlers run. \<open>pass\<close> records where a scheduling pass is suspended: nowhere, at
  \<^verbatim>\<open>await audioContext.resume()\<close>, or at \<^verbatim>\<open>await decodeAudioData(...)\<close> for the
  item it read from the head of the queue.
\<close>

datatype pass = NoPass | AwaitResume | AwaitDecode audio_item

text \<open>
  A promise returned by \<^verbatim>\<open>textToSpeech\<close> (it never rejects: the function catches
  every failure and resolves with \<^verbatim>\<open>null\<close>), and the list of the calls made.
\<close>

datatype promise_state = Pending | Resolved "base64 option"

record tts_call =
  ttsText :: jsstring
  ttsResult :: promise_state

record tts_job =
  promise :: nat
  jobMessageIndex :: nat

text \<open>
  The functions passed to \<^verbatim>\<open>setMessages\<close>. React queues such an updater and runs it
  when it next renders the component; only when no update is pending may it run the
  updater at the call and queue the result (\<open>Computed\<close>). An updater that reads a ref
  reads the value the ref holds when the updater runs.
\<close>

datatype updater =
    Append message
  | UserTranscript
  | ModelTranscript
  | FinalizeUser
  | ModelText jsstring
  | Computed "message list"

text \<open>
  The React state and the refs of the component that the audio pipeline touches, under
  their names in the source (a ref \<^verbatim>\<open>xRef\<close> is the field \<open>x\<close>), followed by the
  continuations (\<open>schedulePass\<close>, \<open>ttsAwaiting\<close>) and the environment
  (\<open>sources\<close>, \<open>ttsCalls\<close>, \<open>timers\<close>, \<open>pendingUpdates\<close>).
  \<open>messages\<close> is the list as last rendered. A ref to a platform resource
  (\<open>liveSession\<close>, \<open>microphoneStream\<close>, \<open>audioWorkletNode\<close>,
  \<open>inputAudioContext\<close>) is \<open>True\<close> while it holds the resource and \<open>False\<close> when
  it is \<^verbatim>\<open>null\<close>; the code sets such a ref to \<^verbatim>\<open>null\<close> only after releasing what it
  held. \<open>audioSource\<close> is the position in \<open>sources\<close> of the node the ref holds.
  \<open>timers\<close> lists the delays of the pending \<^verbatim>\<open>setTimeout\<close> calls; each of them
  runs \<^verbatim>\<open>setLiveError(null)\<close>.
\<close>

record state =
  messages :: "message list"
  pendingUpdates :: "updater list"
  isLoading :: bool
  isLiveSessionActive :: bool
  liveError :: "jsstring option"
  isAudioEnabled :: bool
  currentlyPlayingIndex :: "nat option"
  liveSession :: bool
  inputAudioContext :: bool
  outputAudioContext :: "context_state option"
  microphoneStream :: bool
  audioWorkletNode :: bool
  currentUserTranscription :: jsstring
  currentModelTranscription :: jsstring
  audioQueue :: "audio_item list"
  isAudioPlaying :: bool
  isScheduling :: bool
  nextStartTime :: real
  audioSource :: "nat option"
  ttsPromiseQueue :: "tts_job list"
  isProcessingTts :: bool
  schedulePass :: pass
  ttsAwaiting :: "tts_job option"
  sources :: "source_node list"
  ttsCalls :: "tts_call list"
  timers :: "nat list"

text \<open>
  The component after its first render and its initialisation effect (lines 124-162 and
  195-223). The effect creates the output context; \<open>ctx\<close> is \<open>None\<close> when the
  browser has no Web Audio API.
\<close>

definition initialState :: "context_state option \<Rightarrow> state" where
  "initialState ctx =
     \<lparr>messages = [\<lparr>role = Model, msgText = greeting, imageData = None\<rparr>],
      pendingUpdates = [], isLoading = False, isLiveSessionActive = False, liveError = None,
      isAudioEnabled = True, currentlyPlayingIndex = None, liveSession = False,
      inputAudioContext = False, outputAudioContext = ctx, microphoneStream = False,
      audioWorkletNode = False, currentUserTranscription = [],
      currentModelTranscription = [], audioQueue = [], isAudioPlaying = False,
      isScheduling = False, nextStartTime = 0, audioSource = None, ttsPromiseQueue = [],
      isProcessingTts = False, schedulePass = NoPass, ttsAwaiting = None, sources = [],
      ttsCalls = [], timers = []\<rparr>"

section \<open>Playback scheduler\<close>

text \<open>
  \<^verbatim>\<open>scheduleAudio\<close> (lines 243-304), cut at its \<^verbatim>\<open>await\<close>s.

  \<open>scheduleAudio\<close> is the call up to the first suspension: the in-flight guard, the
  flag, the missing-context exit, and either the wait for \<^verbatim>\<open>resume()\<close> or the entry
  into the \<^verbatim>\<open>try\<close> block. \<open>scheduleAudio_loop\<close> is the head of the \<^verbatim>\<open>while\<close>
  loop: with an item queued the pass suspends on its decoding, otherwise the loop ends
  and control reaches \<^verbatim>\<open>finally\<close>. \<open>scheduleAudio_finally\<close> clears the flag and calls
  \<^verbatim>\<open>scheduleAudio\<close> again when the queue is not empty. The three call each other as in
  the source; the recursion ends because the loop is left only with an empty queue.
\<close>

function scheduleAudio :: "state \<Rightarrow> state"
  and scheduleAudio_loop :: "state \<Rightarrow> state"
  and scheduleAudio_finally :: "state \<Rightarrow> state" where
  "scheduleAudio s =
     (if isScheduling s then s
      else if outputAudioContext s = None
        then (s\<lparr>isScheduling := True\<rparr>)\<lparr>isScheduling := False\<rparr>
      else if outputAudioContext s = Some Suspended
        then s\<lparr>isScheduling := True, schedulePass := AwaitResume\<rparr>
      else scheduleAudio_loop (s\<lparr>isScheduling := True\<rparr>))"
| "scheduleAudio_loop s =
     (if audioQueue s \<noteq> [] then s\<lparr>schedulePass := AwaitDecode (hd (audioQueue s))\<rparr>
      else scheduleAudio_finally s)"
| "scheduleAudio_finally s =
     (if audioQueue s \<noteq> []
      then scheduleAudio (s\<lparr>isScheduling := False, schedulePass := NoPass\<rparr>)
      else s\<lparr>isScheduling := False, schedulePass := NoPass\<rparr>)"
  by pat_completeness auto
termination
  by (relation "measure (\<lambda>x. case x of
         Inl s \<Rightarrow> (if audioQueue s = [] then 2 else 1)
       | Inr (Inl s) \<Rightarrow> (if audioQueue s = [] then 1 else 0)
       | Inr (Inr s) \<Rightarrow> (if audioQueue s = [] then 0 else 2))") auto

declare scheduleAudio.simps [simp del] scheduleAudio_loop.simps [simp del]
  scheduleAudio_finally.simps [simp del]

text \<open>
  The body of the loop after a successful decode (lines 261-294), for the item the pass
  had read before the \<^verbatim>\<open>await\<close>: \<^verbatim>\<open>shift()\<close> drops whatever is at the head of the
  queue now (nothing when the queue is empty), the marker is set for a TTS item, the
  cursor \<^verbatim>\<open>nextStartTimeRef\<close> is moved ahead of the device clock when it has fallen
  behind, the source is started at the cursor and the cursor advanced by the buffer's
  duration. \<open>isOpen\<close> is the value of the prop in the closure that runs;
  \<open>currentTime\<close> is the reading of \<^verbatim>\<open>audioContext.currentTime\<close>. Where the source
  node is connected (compressor, gain or destination) has no effect on the state.
\<close>

definition scheduleSegment :: "bool \<Rightarrow> real \<Rightarrow> audio_item \<Rightarrow> audio_buffer \<Rightarrow> state \<Rightarrow> state" where
  "scheduleSegment isOpen currentTime item audioBuffer s =
     (let s1 = s\<lparr>audioQueue := tl (audioQueue s)\<rparr>;
          s2 = (if isOpen \<and> messageIndex item \<noteq> None
                then s1\<lparr>currentlyPlayingIndex := messageIndex item\<rparr> else s1);
          s3 = (if nextStartTime s2 < currentTime
                then s2\<lparr>nextStartTime := currentTime + 0.05\<rparr> else s2);
          source = \<lparr>startTime = nextStartTime s3, buffer = audioBuffer, stopped = False\<rparr>
      in s3\<lparr>sources := sources s3 @ [source],
            nextStartTime := nextStartTime s3 + duration audioBuffer,
            audioSource := Some (length (sources s3)),
            isAudioPlaying := True\<rparr>)"

text \<open>The pass continues after \<^verbatim>\<open>await audioContext.resume()\<close>.\<close>

definition scheduleAudio_resumed :: "state \<Rightarrow> state" where
  "scheduleAudio_resumed s =
     (if schedulePass s = AwaitResume
      then scheduleAudio_loop (s\<lparr>outputAudioContext := Some Running\<rparr>)
      else s)"

text \<open>
  The pass continues after \<^verbatim>\<open>await decodeAudioData(decode(item.audioData),
  audioContext, 24000, 1)\<close>. A failed decode is caught (and logged), which leads to
  \<^verbatim>\<open>finally\<close> with the item still in the queue; a successful one runs the loop body
  and returns to the head of the loop. One channel at 24000 Hz is inside the range that
  every browser supports, so the result is the same for every conforming context
  (lemma \<open>decodeAudioData_any_context\<close>) and the pass is written with \<open>requiredLimits\<close>.
\<close>

definition scheduleAudio_decoded :: "bool \<Rightarrow> real \<Rightarrow> state \<Rightarrow> state" where
  "scheduleAudio_decoded isOpen currentTime s =
     (case schedulePass s of
        AwaitDecode item \<Rightarrow>
          (case decodeAudioData (decode (audioData item)) requiredLimits 24000 1 of
             Inl e \<Rightarrow> scheduleAudio_finally s
           | Inr audioBuffer \<Rightarrow>
               scheduleAudio_loop (scheduleSegment isOpen currentTime item audioBuffer s))
      | _ \<Rightarrow> s)"

text \<open>\<^verbatim>\<open>source.onended\<close> (lines 289-294).\<close>

definition onended :: "bool \<Rightarrow> real \<Rightarrow> state \<Rightarrow> state" where
  "onended isOpen currentTime s =
     (if audioQueue s = [] \<and> \<bar>nextStartTime s - currentTime\<bar> < 0.5
      then (if isOpen then s\<lparr>currentlyPlayingIndex := None\<rparr> else s)\<lparr>isAudioPlaying := False\<rparr>
      else s)"

text \<open>
  \<^verbatim>\<open>toggleAudio\<close> (lines 592-599). \<^verbatim>\<open>audioSourceRef.current.stop()\<close> reaches the one
  node the ref holds, which is the node started last.
\<close>

definition stopSource :: "nat option \<Rightarrow> source_node list \<Rightarrow> source_node list" where
  "stopSource r srcs =
     (case r of None \<Rightarrow> srcs | Some i \<Rightarrow> srcs[i := (srcs ! i)\<lparr>stopped := True\<rparr>])"

definition toggleAudio :: "state \<Rightarrow> state" where
  "toggleAudio s =
     (let s1 = s\<lparr>isAudioEnabled := \<not> isAudioEnabled s\<rparr>
      in if isAudioEnabled s
         then s1\<lparr>sources := stopSource (audioSource s1) (sources s1), audioQueue := [],
                 currentlyPlayingIndex := None\<rparr>
         else s1)"

section \<open>TTS request queue\<close>

text \<open>
  \<^verbatim>\<open>textToSpeech\<close> (the service module): a new promise, already resolved with
  \<^verbatim>\<open>null\<close> for blank text. \<open>ttsSettled\<close> is the service answering call \<open>p\<close>; the
  promise resolves with \<^verbatim>\<open>audioData || null\<close>, so an empty payload becomes
  \<^verbatim>\<open>null\<close>, as does a failure (\<open>None\<close>).
\<close>

definition textToSpeech :: "jsstring \<Rightarrow> state \<Rightarrow> nat \<times> state" where
  "textToSpeech txt s =
     (length (ttsCalls s),
      s\<lparr>ttsCalls := ttsCalls s @
           [\<lparr>ttsText = txt, ttsResult = (if isBlank txt then Resolved None else Pending)\<rparr>]\<rparr>)"

definition ttsSettled :: "nat \<Rightarrow> base64 option \<Rightarrow> state \<Rightarrow> state" where
  "ttsSettled p response s =
     (if p < length (ttsCalls s) \<and> ttsResult (ttsCalls s ! p) = Pending
      then s\<lparr>ttsCalls := (ttsCalls s)[p := (ttsCalls s ! p)
             \<lparr>ttsResult := Resolved (case response of
                                        None \<Rightarrow> None
                                      | Some d \<Rightarrow> if d = [] then None else Some d)\<rparr>]\<rparr>
      else s)"

text \<open>
  \<^verbatim>\<open>processNextTts\<close> (lines 554-569) up to its \<^verbatim>\<open>await promise\<close>, and its
  continuation once the promise of the job it took is resolved. \<open>ttsAwaiting\<close> holds
  that job. \<^verbatim>\<open>processTtsQueue\<close> (lines 544-552) starts the loop only while the flag
  \<^verbatim>\<open>isProcessingTtsRef\<close> is clear.
\<close>

definition processNextTts :: "state \<Rightarrow> state" where
  "processNextTts s =
     (case ttsPromiseQueue s of
        [] \<Rightarrow> s\<lparr>isProcessingTts := False\<rparr>
      | job # rest \<Rightarrow>
          s\<lparr>isProcessingTts := True, ttsPromiseQueue := rest, ttsAwaiting := Some job\<rparr>)"

definition processNextTts_resumed :: "state \<Rightarrow> state" where
  "processNextTts_resumed s =
     (case ttsAwaiting s of
        None \<Rightarrow> s
      | Some job \<Rightarrow>
          if promise job < length (ttsCalls s)
          then (case ttsResult (ttsCalls s ! promise job) of
                  Pending \<Rightarrow> s
                | Resolved r \<Rightarrow>
                    let s1 = s\<lparr>ttsAwaiting := None\<rparr>;
                        s2 = (case r of
                                None \<Rightarrow> s1
                              | Some d \<Rightarrow>
                                  if d \<noteq> []
                                  then scheduleAudio (s1\<lparr>audioQueue := audioQueue s1 @
                                         [\<lparr>audioData = d,
                                           messageIndex = Some (jobMessageIndex job)\<rparr>]\<rparr>)
                                  else s1)
                    in processNextTts s2)
          else s)"

definition processTtsQueue :: "jsstring \<Rightarrow> nat \<Rightarrow> state \<Rightarrow> state" where
  "processTtsQueue txt idx s =
     (if isBlank txt then s
      else let (ttsPromise, s1) = textToSpeech txt s;
               s2 = s1\<lparr>ttsPromiseQueue := ttsPromiseQueue s1 @
                      [\<lparr>promise = ttsPromise, jobMessageIndex = idx\<rparr>]\<rparr>
           in if \<not> isProcessingTts s2 then processNextTts s2 else s2)"






section \<open>Message list updates\<close>

text \<open>
  The bodies of the updater functions. Each copies the array and assigns to the text of
  one message: the last message (\<^verbatim>\<open>newMessages[newMessages.length - 1]\<close>; the list is
  never empty, it starts with the greeting and only grows) or the last message of the
  user (\<^verbatim>\<open>newMessages.slice().reverse().find(m => m.role === 'user')\<close>).
\<close>

definition updateLast :: "(message \<Rightarrow> message) \<Rightarrow> message list \<Rightarrow> message list" where
  "updateLast f msgs = (if msgs = [] then msgs else butlast msgs @ [f (last msgs)])"

fun updateFirstUser :: "(message \<Rightarrow> message) \<Rightarrow> message list \<Rightarrow> message list" where
  "updateFirstUser f [] = []"
| "updateFirstUser f (m # ms) =
     (if role m = User then f m # ms else m # updateFirstUser f ms)"

definition lastUserMessage :: "message list \<Rightarrow> message option" where
  "lastUserMessage msgs = find (\<lambda>m. role m = User) (rev msgs)"

definition applyUpdater :: "state \<Rightarrow> updater \<Rightarrow> message list \<Rightarrow> message list" where
  "applyUpdater s u prev =
     (case u of
        Append m \<Rightarrow> prev @ [m]
      | UserTranscript \<Rightarrow>
          updateLast (\<lambda>lastMessage. if role lastMessage = User
             then lastMessage\<lparr>msgText := currentUserTranscription s @ ellipsis\<rparr>
             else lastMessage) prev
      | ModelTranscript \<Rightarrow>
          updateLast (\<lambda>lastMessage. if role lastMessage = Model
             then lastMessage\<lparr>msgText := currentModelTranscription s\<rparr>
             else lastMessage) prev
      | FinalizeUser \<Rightarrow>
          rev (updateFirstUser (\<lambda>lastUserMessage.
             if endsWith (msgText lastUserMessage) ellipsis
             then lastUserMessage\<lparr>msgText := currentUserTranscription s\<rparr>
             else lastUserMessage) (rev prev))
      | ModelText fullText \<Rightarrow>
          updateLast (\<lambda>lastMessage. if role lastMessage = Model
             then lastMessage\<lparr>msgText := fullText\<rparr> else lastMessage) prev
      | Computed msgs \<Rightarrow> msgs)"

text \<open>
  \<^verbatim>\<open>setMessages(updater)\<close>. \<open>eager\<close> says whether React runs an updater at the call
  when it can, that is when no update is pending; the program has no say in it.
  \<open>render\<close> is the next render: the queued updaters run in order, against the refs as
  they are then.
\<close>

definition setMessages :: "bool \<Rightarrow> updater \<Rightarrow> state \<Rightarrow> state" where
  "setMessages eager u s =
     (if eager \<and> pendingUpdates s = []
      then s\<lparr>pendingUpdates := [Computed (applyUpdater s u (messages s))]\<rparr>
      else s\<lparr>pendingUpdates := pendingUpdates s @ [u]\<rparr>)"

definition render :: "state \<Rightarrow> state" where
  "render s = s\<lparr>messages := fold (applyUpdater s) (pendingUpdates s) (messages s),
                pendingUpdates := []\<rparr>"

section \<open>Live session\<close>

text \<open>
  The parts of a server message that \<^verbatim>\<open>handleLiveMessage\<close> (lines 329-373) reads: the
  text of an input or output transcription, the data of the first part of the model
  turn, and the turn-complete flag. The handler tests each of them in turn, so one
  message may carry several.
\<close>

record live_message =
  inputTranscription :: "jsstring option"
  outputTranscription :: "jsstring option"
  inlineData :: "base64 option"
  turnComplete :: bool

definition handleLiveMessage :: "bool \<Rightarrow> live_message \<Rightarrow> state \<Rightarrow> state" where
  "handleLiveMessage eager message s =
     (let s1 = (case inputTranscription message of
                  None \<Rightarrow> s
                | Some fragment \<Rightarrow>
                    setMessages eager UserTranscript
                      (s\<lparr>currentUserTranscription := currentUserTranscription s @ fragment\<rparr>));
          s2 = (case outputTranscription message of
                  None \<Rightarrow> s1
                | Some fragment \<Rightarrow>
                    let s1a = (if currentModelTranscription s1 = []
                               then setMessages eager
                                      (Append \<lparr>role = Model, msgText = [], imageData = None\<rparr>) s1
                               else s1)
                    in setMessages eager ModelTranscript
                         (s1a\<lparr>currentModelTranscription :=
                                 currentModelTranscription s1a @ fragment\<rparr>));
          s3 = (case inlineData message of
                  None \<Rightarrow> s2
                | Some d \<Rightarrow>
                    if d \<noteq> []
                    then scheduleAudio (s2\<lparr>audioQueue := audioQueue s2 @
                           [\<lparr>audioData = d, messageIndex = None\<rparr>]\<rparr>)
                    else s2)
      in if turnComplete message
         then (setMessages eager FinalizeUser s3)
                \<lparr>currentUserTranscription := [], currentModelTranscription := []\<rparr>
         else s3)"

text \<open>
  \<^verbatim>\<open>startLiveSession\<close> (lines 324-472) and the callbacks it installs, one definition
  per point where the function or the session calls back: the call itself, the
  microphone granted, the \<^verbatim>\<open>catch\<close> block (microphone refused or connection failed),
  \<^verbatim>\<open>onopen\<close> (with the three ways its \<^verbatim>\<open>try\<close> block can end), the session
  promise resolved, \<^verbatim>\<open>onclose\<close> and \<^verbatim>\<open>onerror\<close>; then \<^verbatim>\<open>stopLiveSession\<close>
  (lines 307-322) and the timer callback \<^verbatim>\<open>() => setLiveError(null)\<close>.
\<close>

definition startLiveSession :: "bool \<Rightarrow> state \<Rightarrow> state" where
  "startLiveSession eager s =
     setMessages eager (Append \<lparr>role = User, msgText = ellipsis, imageData = None\<rparr>)
       (s\<lparr>isLiveSessionActive := True, liveError := None\<rparr>)"

definition getUserMedia_resolved :: "state \<Rightarrow> state" where
  "getUserMedia_resolved s = s\<lparr>microphoneStream := True\<rparr>"

definition startLiveSession_failed :: "state \<Rightarrow> state" where
  "startLiveSession_failed s =
     s\<lparr>isLiveSessionActive := False, liveError := Some micError, timers := timers s @ [5000]\<rparr>"

datatype open_outcome = InputReady | ContextFailed | WorkletFailed

definition onopen :: "open_outcome \<Rightarrow> state \<Rightarrow> state" where
  "onopen outcome s =
     (case outcome of
        InputReady \<Rightarrow> s\<lparr>inputAudioContext := True, audioWorkletNode := True\<rparr>
      | ContextFailed \<Rightarrow> s\<lparr>liveError := Some inputInitError\<rparr>
      | WorkletFailed \<Rightarrow> s\<lparr>inputAudioContext := True, liveError := Some inputInitError\<rparr>)"

definition connect_resolved :: "state \<Rightarrow> state" where
  "connect_resolved s = s\<lparr>liveSession := True\<rparr>"

definition onclose :: "state \<Rightarrow> state" where
  "onclose s = s\<lparr>isLiveSessionActive := False\<rparr>"

definition onerror :: "state \<Rightarrow> state" where
  "onerror s =
     s\<lparr>isLiveSessionActive := False, liveError := Some serverError,
       timers := timers s @ [5000]\<rparr>"

definition stopLiveSession :: "state \<Rightarrow> state" where
  "stopLiveSession s =
     s\<lparr>liveSession := False, microphoneStream := False, audioWorkletNode := False,
       inputAudioContext := False, isLiveSessionActive := False\<rparr>"

definition timerFired :: "nat \<Rightarrow> state \<Rightarrow> state" where
  "timerFired i s =
     (if i < length (timers s)
      then s\<lparr>liveError := None, timers := take i (timers s) @ drop (Suc i) (timers s)\<rparr>
      else s)"

section \<open>Text chat\<close>

text \<open>
  \<^verbatim>\<open>handleSendMessage\<close> (lines 488-542) is created anew at every render and closes
  over the state of that render: inside one call \<^verbatim>\<open>isAudioEnabled\<close>,
  \<^verbatim>\<open>isLiveSessionActive\<close> and \<^verbatim>\<open>messages\<close> are constants, whatever happens to the
  component while the reply streams in. \<open>send_closure\<close> holds these constants and the
  local variable \<^verbatim>\<open>fullText\<close>.

  \<open>handleSendMessage\<close> is the call up to the start of the stream (\<open>None\<close>: the guard
  returned at once), for the text of the input field and the preview of an attached
  image. \<open>handleSendMessage_chunk\<close> is one iteration of the \<^verbatim>\<open>for await\<close> loop for
  the text of the chunk. The last two are the \<^verbatim>\<open>catch\<close> and \<^verbatim>\<open>finally\<close> blocks.
  Clearing the input field and the attachment is left out. The updater of line 520
  reads \<^verbatim>\<open>fullText\<close> when it runs; it is recorded with the text at the call.
\<close>

record send_closure =
  cIsAudioEnabled :: bool
  cIsLiveSessionActive :: bool
  cMessagesLength :: nat
  fullText :: jsstring

definition handleSendMessage ::
  "bool \<Rightarrow> jsstring \<Rightarrow> jsstring option \<Rightarrow> state \<Rightarrow> (send_closure \<times> state) option" where
  "handleSendMessage eager input preview s =
     (if (isBlank input \<and> preview = None) \<or> isLoading s then None
      else let userMessage = \<lparr>role = User, msgText = input, imageData = preview\<rparr>;
               s1 = (setMessages eager (Append userMessage) s)\<lparr>isLoading := True\<rparr>;
               s2 = setMessages eager (Append \<lparr>role = Model, msgText = [], imageData = None\<rparr>) s1
           in Some (\<lparr>cIsAudioEnabled = isAudioEnabled s,
                      cIsLiveSessionActive = isLiveSessionActive s,
                      cMessagesLength = length (messages s), fullText = []\<rparr>, s2))"

definition handleSendMessage_chunk ::
  "bool \<Rightarrow> jsstring \<Rightarrow> send_closure \<times> state \<Rightarrow> send_closure \<times> state" where
  "handleSendMessage_chunk eager chunkText cs =
     (let (c, s) = cs in
      if chunkText = [] then (c, s)
      else let c1 = c\<lparr>fullText := fullText c @ chunkText\<rparr>;
               s1 = setMessages eager (ModelText (fullText c1)) s
           in if cIsAudioEnabled c1 \<and> \<not> cIsLiveSessionActive c1
              then (if 10 < length chunkText \<or> hasSentenceEnd chunkText
                    then (c1, processTtsQueue chunkText (cMessagesLength c1) s1)
                    else (c1, s1))
              else (c1, s1))"

definition handleSendMessage_failed :: "bool \<Rightarrow> state \<Rightarrow> state" where
  "handleSendMessage_failed eager s =
     (setMessages eager (Append \<lparr>role = Model, msgText = sendError, imageData = None\<rparr>) s)
       \<lparr>isLoading := False\<rparr>"

definition handleSendMessage_finished :: "state \<Rightarrow> state" where
  "handleSendMessage_finished s = s\<lparr>isLoading := False\<rparr>"

section \<open>Events\<close>

text \<open>
  Everything runs on one event loop: a handler runs to its next \<^verbatim>\<open>await\<close> or to its
  end, then another one runs. An event is one such run; a history of the component is a
  list of events from the initial state. The streaming loop of a send is given its
  closure with each chunk. An event that finds nothing to continue (no pass suspended,
  no promise resolved) leaves the state as it is.
\<close>

datatype event =
    Render
  | SendMessage jsstring "jsstring option"
  | Chunk send_closure jsstring
  | SendFailed
  | SendFinished
  | TtsSettled nat "base64 option"
  | TtsResumed
  | StartLive
  | MicGranted
  | StartFailed
  | SessionOpen open_outcome
  | SessionConnected
  | SessionMessage live_message
  | SessionClose
  | SessionError
  | StopLive
  | TimerFired nat
  | ToggleAudio
  | ContextResumed
  | AudioDecoded real
  | SourceEnded real

fun step :: "bool \<Rightarrow> bool \<Rightarrow> event \<Rightarrow> state \<Rightarrow> state" where
  "step eager isOpen Render s = render s"
| "step eager isOpen (SendMessage input preview) s =
     (case handleSendMessage eager input preview s of None \<Rightarrow> s | Some (c, s1) \<Rightarrow> s1)"
| "step eager isOpen (Chunk c chunkText) s = snd (handleSendMessage_chunk eager chunkText (c, s))"
| "step eager isOpen SendFailed s = handleSendMessage_failed eager s"
| "step eager isOpen SendFinished s = handleSendMessage_finished s"
| "step eager isOpen (TtsSettled p response) s = ttsSettled p response s"
| "step eager isOpen TtsResumed s = processNextTts_resumed s"
| "step eager isOpen StartLive s = startLiveSession eager s"
| "step eager isOpen MicGranted s = getUserMedia_resolved s"
| "step eager isOpen StartFailed s = startLiveSession_failed s"
| "step eager isOpen (SessionOpen outcome) s = onopen outcome s"
| "step eager isOpen SessionConnected s = connect_resolved s"
| "step eager isOpen (SessionMessage message) s = handleLiveMessage eager message s"
| "step eager isOpen SessionClose s = onclose s"
| "step eager isOpen SessionError s = onerror s"
| "step eager isOpen StopLive s = stopLiveSession s"
| "step eager isOpen (TimerFired i) s = timerFired i s"
| "step eager isOpen ToggleAudio s = toggleAudio s"
| "step eager isOpen ContextResumed s = scheduleAudio_resumed s"
| "step eager isOpen (AudioDecoded currentTime) s = scheduleAudio_decoded isOpen currentTime s"
| "step eager isOpen (SourceEnded currentTime) s = onended isOpen currentTime s"

definition run :: "bool \<Rightarrow> bool \<Rightarrow> event list \<Rightarrow> state \<Rightarrow> state" where
  "run eager isOpen evs s = fold (step eager isOpen) evs s"


section \<open>Invariants\<close>

text \<open>
  Sources that follow each other without overlap: each one starts no earlier than the one
  before it ends. \<open>timeline\<close> adds that the cursor \<^verbatim>\<open>nextStartTimeRef\<close> is not
  before the end of any source started so far.
\<close>

definition gapless :: "source_node list \<Rightarrow> bool" where
  "gapless srcs =
     (\<forall>i. Suc i < length srcs \<longrightarrow>
        startTime (srcs ! i) + duration (buffer (srcs ! i)) \<le> startTime (srcs ! Suc i))"

definition timeline :: "state \<Rightarrow> bool" where
  "timeline s =
     (gapless (sources s)
      \<and> (\<forall>src \<in> set (sources s). startTime src + duration (buffer src) \<le> nextStartTime s))"

text \<open>
  The scheduler is never idle while segments wait: with an output context, the in-flight
  flag is set exactly while a pass is suspended, and it is set whenever the queue is not
  empty.
\<close>

definition neverIdleWithWork :: "state \<Rightarrow> bool" where
  "neverIdleWithWork s =
     (outputAudioContext s \<noteq> None
      \<and> (isScheduling s \<longleftrightarrow> schedulePass s \<noteq> NoPass)
      \<and> (audioQueue s \<noteq> [] \<longrightarrow> isScheduling s))"

text \<open>The parts of the state that the timeline and the scheduler depend on.\<close>

text \<open>What a handler leaves alone.\<close>

definition sameScheduler :: "state \<Rightarrow> state \<Rightarrow> bool" where
  "sameScheduler s' s =
     (audioQueue s' = audioQueue s \<and> isScheduling s' = isScheduling s
      \<and> schedulePass s' = schedulePass s \<and> outputAudioContext s' = outputAudioContext s)"



section \<open>PCM codec: the decoder and the round trip\<close>

lemma le16_arith:
  "(ucast (lo :: byte) OR push_bit 8 (ucast (hi :: byte)) :: int16) =
     word_of_nat (unat lo + 256 * unat hi)"
proof -
  have "(ucast lo :: int16) OR push_bit 8 (ucast hi) = ucast lo + push_bit 8 (ucast hi)"
    by (rule disjunctive_add [symmetric]) (auto simp add: bit_simps dest: bit_imp_le_length)
  also have "\<dots> = word_of_nat (unat lo + 256 * unat hi)"
    by (simp add: push_bit_eq_mult)
  finally show ?thesis .
qed

lemma int16_view_nth:
  "int16_view data =
     map (\<lambda>k. word_of_nat (unat (data ! (2 * k)) + 256 * unat (data ! (2 * k + 1))))
       [0..<length data div 2]"
proof (induction data rule: int16_view.induct)
  case (1 lo hi rest)
  have "[0..<Suc (length rest div 2)] = 0 # map Suc [0..<length rest div 2]"
    by (simp add: upt_conv_Cons map_Suc_upt del: upt_Suc)
  then show ?case using 1 by (simp add: le16_arith comp_def del: upt_Suc)
qed simp_all

lemma float32_nth:
  "map (\<lambda>w. real_of_int (sint w) / 32768) (int16_view data) =
     map (pcmSample data) [0..<length data div 2]"
  by (simp add: int16_view_nth pcmSample_def comp_def)

lemma frame_index:
  fixes i c ch n :: nat
  assumes "i < n div (2 * c)" "ch < c"
  shows "i * c + ch < n div 2"
proof -
  have "i * c + ch < Suc i * c" using assms(2) by simp
  also have "\<dots> \<le> (n div (2 * c)) * c"
    using assms(1) by (intro mult_le_mono1) simp
  also have "\<dots> = (n div 2 div c) * c" by (simp add: div_mult2_eq)
  also have "\<dots> \<le> n div 2" by simp
  finally show ?thesis .
qed

lemma view_bytes: "int16_view (int16_bytes w @ rest) = w # int16_view rest"
  unfolding int16_bytes_def
  apply simp
  apply (rule bit_word_eqI)
  apply (auto simp add: bit_simps)
  done

lemma view_pcm: "int16_view (concat (map int16_bytes ws)) = ws"
  by (induction ws) (simp_all add: view_bytes)

lemma length_pcm: "length (concat (map int16_bytes ws)) = 2 * length ws"
  by (induction ws) (simp_all add: int16_bytes_def)

lemma sint_toInt16:
  assumes "- 32768 \<le> v" "v \<le> 32767"
  shows "sint (toInt16 v) = (if v < 0 then \<lceil>v\<rceil> else \<lfloor>v\<rfloor>)"
proof -
  let ?n = "if v < 0 then \<lceil>v\<rceil> else \<lfloor>v\<rfloor>"
  have "- 32768 \<le> ?n" "?n \<le> 32767"
    using assms by (auto simp add: le_floor_iff le_ceiling_iff ceiling_le_iff floor_le_iff)
  then have "sint (word_of_int ?n :: int16) = ?n"
    by (simp add: sint_sbintrunc' signed_take_bit_int_eq_self)
  then show ?thesis by (simp add: toInt16_def)
qed

lemma quantize_bound:
  fixes x :: real
  defines "s \<equiv> clampSample x"
  defines "y \<equiv> real_of_int (sint (toInt16 (if s < 0 then s * 32768 else s * 32767))) / 32768"
  shows "\<bar>y - s\<bar> \<le> 2 / 32768" and "s < 0 \<Longrightarrow> \<bar>y - s\<bar> \<le> 1 / 32768"
proof -
  have range: "- 1 \<le> s" "s \<le> 1" by (simp_all add: s_def clampSample_def)
  show neg: "\<bar>y - s\<bar> \<le> 1 / 32768" if "s < 0"
  proof -
    have "sint (toInt16 (s * 32768)) = \<lceil>s * 32768\<rceil>"
      using range that by (subst sint_toInt16) auto
    then have y: "y = real_of_int \<lceil>s * 32768\<rceil> / 32768" using that by (simp add: y_def)
    define q where "q = real_of_int \<lceil>s * 32768\<rceil>"
    have "s * 32768 \<le> q" "q < s * 32768 + 1"
      unfolding q_def by linarith+
    then have "- 1 \<le> q - 32768 * s" "q - 32768 * s \<le> 1"
      by linarith+
    then have "\<bar>q / 32768 - s\<bar> \<le> 1 / 32768"
      by (simp add: abs_le_iff field_simps)
    then show ?thesis unfolding y q_def .
  qed
  show "\<bar>y - s\<bar> \<le> 2 / 32768"
  proof (cases "s < 0")
    case True
    then show ?thesis using neg by simp
  next
    case False
    have "sint (toInt16 (s * 32767)) = \<lfloor>s * 32767\<rfloor>"
      using range False by (subst sint_toInt16) auto
    then have y: "y = real_of_int \<lfloor>s * 32767\<rfloor> / 32768" using False by (simp add: y_def)
    define q where "q = real_of_int \<lfloor>s * 32767\<rfloor>"
    have "q \<le> s * 32767" "s * 32767 - 1 < q"
      unfolding q_def by linarith+
    then have "- 2 \<le> q - 32768 * s" "q - 32768 * s \<le> 2"
      using range False by linarith+
    then have "\<bar>q / 32768 - s\<bar> \<le> 2 / 32768"
      by (simp add: abs_le_iff field_simps)
    then show ?thesis unfolding y q_def .
  qed
qed

lemma all_less_two: "(\<forall>i < Suc (Suc 0). P i) \<longleftrightarrow> P 0 \<and> P (Suc 0)"
  by (auto simp add: less_Suc_eq)

text \<open>
  Claim C3, as the code has it. The claim bounds the round-trip error by \<open>1/32768\<close>.
  The encoder scales a non-negative sample by 32767 and truncates, the decoder divides
  by 32768, so a sample just below 1 comes back almost \<open>2/32768\<close> lower. What holds:
  for every non-empty array \<open>data\<close> of samples, decoding (one channel, at a sample
  rate the context supports) the bytes that \<^verbatim>\<open>createPcmBlob\<close> produces succeeds and
  yields an array of the same length, each element of which differs from the clamped
  sample by at most \<open>2/32768\<close>, and by at most \<open>1/32768\<close> where the clamped sample
  is negative. (For the empty array the decoder has no frame to put in a buffer and
  fails.)
\<close>

theorem pcm_round_trip:
  assumes "data \<noteq> []" and "supported ctx 1 rate"
  shows "\<exists>ys. decodeAudioData (decode (blobData (createPcmBlob data))) ctx rate 1 =
            Inr \<lparr>numberOfChannels = 1, frames = length data, sampleRate = rate,
                 channelData = [ys]\<rparr>
          \<and> length ys = length data
          \<and> (\<forall>i < length data.
                \<bar>ys ! i - clampSample (data ! i)\<bar> \<le> 2 / 32768
              \<and> (clampSample (data ! i) < 0
                   \<longrightarrow> \<bar>ys ! i - clampSample (data ! i)\<bar> \<le> 1 / 32768))"
proof -
  let ?ys = "map (\<lambda>w. real_of_int (sint w) / 32768) (pcmInt16 data)"
  have bytes: "decode (blobData (createPcmBlob data)) = pcmBytes data"
    by (simp add: decode_def encode_def createPcmBlob_def)
  have len: "length (pcmBytes data) = 2 * length data"
    unfolding pcmBytes_def by (simp only: length_pcm) (simp add: pcmInt16_def)
  have "decodeAudioData (pcmBytes data) ctx rate 1 =
      Inr \<lparr>numberOfChannels = 1, frames = length data, sampleRate = rate, channelData = [?ys]\<rparr>"
    using assms len
    by (simp add: decodeAudioData_def createBuffer_def) (simp add: pcmBytes_def view_pcm)
  moreover have "length ?ys = length data" by (simp add: pcmInt16_def)
  moreover have "\<bar>?ys ! i - clampSample (data ! i)\<bar> \<le> 2 / 32768
      \<and> (clampSample (data ! i) < 0 \<longrightarrow> \<bar>?ys ! i - clampSample (data ! i)\<bar> \<le> 1 / 32768)"
    if "i < length data" for i
    using that quantize_bound [of "data ! i"] by (simp add: pcmInt16_def Let_def)
  ultimately show ?thesis unfolding bytes by blast
qed

text \<open>The round trip of the two samples \<open>-1/2\<close> and \<open>3/10\<close>.\<close>

theorem pcm_round_trip_witness:
  "[- 1 / 2, 3 / 10] \<noteq> ([] :: real list) \<and> supported requiredLimits 1 24000
   \<and> (\<exists>ys. decodeAudioData (decode (blobData (createPcmBlob [- 1 / 2, 3 / 10])))
              requiredLimits 24000 1 =
            Inr \<lparr>numberOfChannels = 1, frames = 2, sampleRate = 24000, channelData = [ys]\<rparr>
          \<and> length ys = 2
          \<and> \<bar>ys ! 0 - clampSample (- 1 / 2)\<bar> \<le> 2 / 32768
          \<and> \<bar>ys ! 1 - clampSample (3 / 10)\<bar> \<le> 2 / 32768)"
proof -
  have ne: "[- 1 / 2, 3 / 10] \<noteq> ([] :: real list)" by simp
  have ok: "supported requiredLimits 1 24000" by (simp add: supported_def requiredLimits_def)
  from pcm_round_trip [OF ne ok] obtain ys where
    ys: "decodeAudioData (decode (blobData (createPcmBlob [- 1 / 2, 3 / 10])))
           requiredLimits 24000 1 =
           Inr \<lparr>numberOfChannels = 1, frames = length [- 1 / 2, 3 / 10 :: real],
                sampleRate = 24000, channelData = [ys]\<rparr>"
      "length ys = length [- 1 / 2, 3 / 10 :: real]"
      "\<forall>i < length [- 1 / 2, 3 / 10 :: real].
         \<bar>ys ! i - clampSample ([- 1 / 2, 3 / 10] ! i)\<bar> \<le> 2 / 32768
         \<and> (clampSample ([- 1 / 2, 3 / 10] ! i) < 0
              \<longrightarrow> \<bar>ys ! i - clampSample ([- 1 / 2, 3 / 10] ! i)\<bar> \<le> 1 / 32768)"
    by blast
  from ys(3) have "\<bar>ys ! 0 - clampSample (- 1 / 2)\<bar> \<le> 2 / 32768"
    "\<bar>ys ! 1 - clampSample (3 / 10)\<bar> \<le> 2 / 32768"
    by (simp_all add: all_less_two)
  with ne ok ys(1,2) show ?thesis by simp
qed

text \<open>
  Claim C3 as stated fails for the single sample \<open>65533/65536\<close> (a single-precision
  value inside \<open>[-1,1]\<close>): it is encoded as 32765, decoded as \<open>32765/32768\<close>, and the
  difference \<open>3/65536\<close> exceeds \<open>1/32768\<close>.
\<close>

theorem pcm_round_trip_exceeds_one_step:
  "decodeAudioData (decode (blobData (createPcmBlob [65533 / 65536]))) requiredLimits 24000 1 =
     Inr \<lparr>numberOfChannels = 1, frames = 1, sampleRate = 24000, channelData = [[32765 / 32768]]\<rparr>
   \<and> clampSample (65533 / 65536) = 65533 / 65536
   \<and> \<bar>32765 / 32768 - clampSample (65533 / 65536)\<bar> > 1 / (32768 :: real)"
  by (simp add: decodeAudioData_def createBuffer_def supported_def requiredLimits_def
      pcmBytes_def pcmInt16_def clampSample_def toInt16_def int16_bytes_def decode_def
      encode_def createPcmBlob_def)

text \<open>
  The scheduler decodes one channel at 24000 Hz, which every conforming context
  supports: the result does not depend on the context.
\<close>

lemma decodeAudioData_any_context:
  "conforming ctx \<Longrightarrow>
     decodeAudioData data ctx 24000 1 = decodeAudioData data requiredLimits 24000 1"
  by (simp add: decodeAudioData_def createBuffer_def supported_def requiredLimits_def
      conforming_def)

text \<open>
  Claim C6, as the code has it. The claim lets the decoder fail with a
  \<^verbatim>\<open>DecodeError\<close> when the byte length is not a multiple of \<open>2 \<times> channels\<close>. The
  decoder has no such check and no such error. What holds, for every input: the decoder
  fails exactly when \<^verbatim>\<open>createBuffer\<close> raises \<^verbatim>\<open>NotSupportedError\<close>, that is, when
  the channel count or the sample rate is zero or outside the range the context
  supports, or the data has fewer than \<open>2 \<times> channels\<close> bytes (there is no frame);
  otherwise it succeeds with \<open>\<lfloor>length / (2 \<times> channels)\<rfloor>\<close> frames per channel,
  frame \<open>i\<close> of channel \<open>ch\<close> being the little-endian signed 16-bit value at sample
  position \<open>i \<times> channels + ch\<close> divided by 32768; bytes that do not fill a frame are
  ignored.
\<close>

theorem decodeAudioData_no_length_check:
  "decodeAudioData data ctx rate numChannels =
     (if \<not> supported ctx numChannels rate \<or> length data < 2 * numChannels
      then Inl NotSupportedError
      else Inr \<lparr>numberOfChannels = numChannels, frames = length data div (2 * numChannels),
                sampleRate = rate,
                channelData = map (\<lambda>ch. map (\<lambda>i. pcmSample data (i * numChannels + ch))
                                          [0..<length data div (2 * numChannels)])
                                [0..<numChannels]\<rparr>)"
proof (cases "supported ctx numChannels rate")
  case False
  then show ?thesis by (simp add: decodeAudioData_def createBuffer_def)
next
  case ok: True
  then have pos_ch: "0 < numChannels" by (simp add: supported_def)
  show ?thesis
  proof (cases "length data < 2 * numChannels")
    case True
    then have "length data div 2 div numChannels = 0"
      using pos_ch by (simp add: div_mult2_eq [symmetric])
    then show ?thesis using True ok
      by (simp add: decodeAudioData_def createBuffer_def)
  next
    case False
    let ?f = "length data div (2 * numChannels)"
    have f: "length data div 2 div numChannels = ?f" by (simp add: div_mult2_eq)
    have pos: "?f \<noteq> 0" using False pos_ch by (simp add: div_eq_0_iff)
    have chan: "map (\<lambda>ch. map (\<lambda>i. map (pcmSample data) [0..<length data div 2]
                                      ! (i * numChannels + ch)) [0..<?f]) [0..<numChannels]
        = map (\<lambda>ch. map (\<lambda>i. pcmSample data (i * numChannels + ch)) [0..<?f]) [0..<numChannels]"
      by (intro map_cong refl) (simp add: frame_index)
    show ?thesis
    proof (cases "numChannels = 1")
      case True
      then show ?thesis using False pos f ok
        unfolding decodeAudioData_def float32_nth by (simp add: createBuffer_def)
    next
      case one: False
      then show ?thesis using False pos f pos_ch chan ok
        unfolding decodeAudioData_def float32_nth by (simp add: createBuffer_def)
    qed
  qed
qed

text \<open>
  On a context with the required limits, at 24000 Hz: seven bytes on two channels give
  one frame; three bytes on two channels give none; 33 channels are refused, and so is
  the sample rate 0.
\<close>

theorem decodeAudioData_no_length_check_witness:
  "supported requiredLimits 2 24000
   \<and> decodeAudioData [1, 2, 3, 4, 5, 6, 7] requiredLimits 24000 2 =
       Inr \<lparr>numberOfChannels = 2, frames = 1, sampleRate = 24000,
            channelData = [[513 / 32768], [1027 / 32768]]\<rparr>
   \<and> decodeAudioData [1, 2, 3] requiredLimits 24000 2 = Inl NotSupportedError
   \<and> \<not> supported requiredLimits 33 24000
   \<and> decodeAudioData (replicate 66 0) requiredLimits 24000 33 = Inl NotSupportedError
   \<and> \<not> supported requiredLimits 1 0
   \<and> decodeAudioData [1, 0] requiredLimits 0 1 = Inl NotSupportedError"
  using decodeAudioData_no_length_check [of "[1, 2, 3, 4, 5, 6, 7]" requiredLimits 24000 2]
    decodeAudioData_no_length_check [of "[1, 2, 3]" requiredLimits 24000 2]
    decodeAudioData_no_length_check [of "replicate 66 0" requiredLimits 24000 33]
    decodeAudioData_no_length_check [of "[1, 0]" requiredLimits 0 1]
  by (simp add: pcmSample_def upt_rec supported_def requiredLimits_def)

text \<open>
  Claim C6 as stated fails for three bytes on one channel: 3 is not a multiple of 2, and
  the decoder succeeds with the one sample that the first two bytes hold.
\<close>

theorem decodeAudioData_odd_length_succeeds:
  "length [1, 2, 3 :: byte] mod (2 * 1) \<noteq> 0
   \<and> decodeAudioData [1, 2, 3] requiredLimits 24000 1 =
       Inr \<lparr>numberOfChannels = 1, frames = 1, sampleRate = 24000, channelData = [[513 / 32768]]\<rparr>"
  by (simp add: decodeAudioData_def createBuffer_def supported_def requiredLimits_def)

section \<open>Playback scheduler: closed forms and frames\<close>

lemma scheduleAudio_finally_eq:
  "scheduleAudio_finally s =
     (if audioQueue s = [] \<or> outputAudioContext s = None
        then s\<lparr>isScheduling := False, schedulePass := NoPass\<rparr>
      else if outputAudioContext s = Some Suspended
        then s\<lparr>isScheduling := True, schedulePass := AwaitResume\<rparr>
      else s\<lparr>isScheduling := True, schedulePass := AwaitDecode (hd (audioQueue s))\<rparr>)"
  by (simp add: scheduleAudio_finally.simps scheduleAudio.simps scheduleAudio_loop.simps)

lemma scheduleAudio_loop_eq:
  "scheduleAudio_loop s =
     (if audioQueue s \<noteq> [] then s\<lparr>schedulePass := AwaitDecode (hd (audioQueue s))\<rparr>
      else s\<lparr>isScheduling := False, schedulePass := NoPass\<rparr>)"
  by (simp add: scheduleAudio_loop.simps scheduleAudio_finally.simps)

lemma scheduleAudio_eq:
  "scheduleAudio s =
     (if isScheduling s then s
      else if outputAudioContext s = None then s\<lparr>isScheduling := False\<rparr>
      else if outputAudioContext s = Some Suspended
        then s\<lparr>isScheduling := True, schedulePass := AwaitResume\<rparr>
      else if audioQueue s \<noteq> []
        then s\<lparr>isScheduling := True, schedulePass := AwaitDecode (hd (audioQueue s))\<rparr>
      else s\<lparr>isScheduling := False, schedulePass := NoPass\<rparr>)"
  by (simp add: scheduleAudio.simps scheduleAudio_loop_eq)

definition sameTimeline :: "state \<Rightarrow> state \<Rightarrow> bool" where
  "sameTimeline s' s = (sources s' = sources s \<and> nextStartTime s' = nextStartTime s)"

lemma sameTimeline_refl [simp]: "sameTimeline s s"
  by (simp add: sameTimeline_def)

lemma sameScheduler_refl [simp]: "sameScheduler s s"
  by (simp add: sameScheduler_def)

lemma sameTimeline_trans: "sameTimeline s2 s1 \<Longrightarrow> sameTimeline s1 s \<Longrightarrow> sameTimeline s2 s"
  by (simp add: sameTimeline_def)

lemma sameScheduler_trans: "sameScheduler s2 s1 \<Longrightarrow> sameScheduler s1 s \<Longrightarrow> sameScheduler s2 s"
  by (simp add: sameScheduler_def)

lemma setMessages_same [simp]:
  "sameTimeline (setMessages e u s) s" "sameScheduler (setMessages e u s) s"
  by (simp_all add: setMessages_def sameTimeline_def sameScheduler_def)

lemma scheduleAudio_sameTimeline [simp]: "sameTimeline (scheduleAudio s) s"
  by (simp add: scheduleAudio_eq sameTimeline_def)

lemma processNextTts_same [simp]:
  "sameTimeline (processNextTts s) s" "sameScheduler (processNextTts s) s"
  by (simp_all add: processNextTts_def sameTimeline_def sameScheduler_def split: list.split)

lemma processTtsQueue_same [simp]:
  "sameTimeline (processTtsQueue txt idx s) s" "sameScheduler (processTtsQueue txt idx s) s"
  by (simp_all add: processTtsQueue_def processNextTts_def textToSpeech_def sameTimeline_def
      sameScheduler_def Let_def split: list.split)

lemma chunk_same [simp]:
  "sameTimeline (snd (handleSendMessage_chunk e t (c, s))) s"
  "sameScheduler (snd (handleSendMessage_chunk e t (c, s))) s"
proof -
  have a: "sameTimeline (processTtsQueue t n (setMessages e u s)) s" for n u
    by (rule sameTimeline_trans [OF processTtsQueue_same(1) setMessages_same(1)])
  have b: "sameScheduler (processTtsQueue t n (setMessages e u s)) s" for n u
    by (rule sameScheduler_trans [OF processTtsQueue_same(2) setMessages_same(2)])
  show "sameTimeline (snd (handleSendMessage_chunk e t (c, s))) s"
    "sameScheduler (snd (handleSendMessage_chunk e t (c, s))) s"
    by (simp_all add: handleSendMessage_chunk_def Let_def a b)
qed

lemma send_same:
  "handleSendMessage e input preview s = Some (c, s1) \<Longrightarrow> sameTimeline s1 s \<and> sameScheduler s1 s"
  by (auto simp add: handleSendMessage_def Let_def setMessages_def sameTimeline_def
      sameScheduler_def split: if_splits)

lemma simple_same [simp]:
  "sameTimeline (render s) s" "sameScheduler (render s) s"
  "sameTimeline (handleSendMessage_failed e s) s" "sameScheduler (handleSendMessage_failed e s) s"
  "sameTimeline (handleSendMessage_finished s) s" "sameScheduler (handleSendMessage_finished s) s"
  "sameTimeline (ttsSettled p r s) s" "sameScheduler (ttsSettled p r s) s"
  "sameTimeline (startLiveSession e s) s" "sameScheduler (startLiveSession e s) s"
  "sameTimeline (getUserMedia_resolved s) s" "sameScheduler (getUserMedia_resolved s) s"
  "sameTimeline (startLiveSession_failed s) s" "sameScheduler (startLiveSession_failed s) s"
  "sameTimeline (onopen outcome s) s" "sameScheduler (onopen outcome s) s"
  "sameTimeline (connect_resolved s) s" "sameScheduler (connect_resolved s) s"
  "sameTimeline (onclose s) s" "sameScheduler (onclose s) s"
  "sameTimeline (onerror s) s" "sameScheduler (onerror s) s"
  "sameTimeline (stopLiveSession s) s" "sameScheduler (stopLiveSession s) s"
  "sameTimeline (timerFired i s) s" "sameScheduler (timerFired i s) s"
  "sameTimeline (onended isOpen t s) s" "sameScheduler (onended isOpen t s) s"
  by (simp_all add: sameTimeline_def sameScheduler_def render_def handleSendMessage_failed_def
      handleSendMessage_finished_def ttsSettled_def startLiveSession_def
      getUserMedia_resolved_def startLiveSession_failed_def onopen_def connect_resolved_def
      onclose_def onerror_def stopLiveSession_def timerFired_def onended_def setMessages_def
      split: open_outcome.split)


lemma field_frames:
  "sources (setMessages e u s) = sources s"
  "nextStartTime (setMessages e u s) = nextStartTime s"
  "sources (scheduleAudio s) = sources s"
  "nextStartTime (scheduleAudio s) = nextStartTime s"
  "sources (processNextTts s) = sources s"
  "nextStartTime (processNextTts s) = nextStartTime s"
  using setMessages_same(1) [of e u s] scheduleAudio_sameTimeline [of s]
    processNextTts_same(1) [of s]
  by (simp_all add: sameTimeline_def)

lemma step_same:
  assumes "ev \<noteq> TtsResumed" "\<forall>m. ev \<noteq> SessionMessage m" "ev \<noteq> ToggleAudio"
    "ev \<noteq> ContextResumed" "\<forall>t. ev \<noteq> AudioDecoded t"
  shows "sameTimeline (step eager isOpen ev s) s \<and> sameScheduler (step eager isOpen ev s) s"
proof (cases ev)
  case (SendMessage input preview)
  then show ?thesis
    by (cases "handleSendMessage eager input preview s") (auto dest: send_same)
qed (use assms in simp_all)

subsection \<open>Start times\<close>

lemma duration_nonneg [simp]: "0 \<le> duration b"
  by (simp add: duration_def)

lemma gapless_snoc:
  assumes "gapless srcs" "\<forall>x \<in> set srcs. startTime x + duration (buffer x) \<le> startTime y"
  shows "gapless (srcs @ [y])"
  unfolding gapless_def
proof (intro allI impI)
  fix i assume i: "Suc i < length (srcs @ [y])"
  show "startTime ((srcs @ [y]) ! i) + duration (buffer ((srcs @ [y]) ! i))
        \<le> startTime ((srcs @ [y]) ! Suc i)"
  proof (cases "Suc i < length srcs")
    case True
    then show ?thesis using assms(1) by (simp add: gapless_def nth_append)
  next
    case False
    with i have "Suc i = length srcs" by simp
    then show ?thesis using assms(2) by (simp add: nth_append)
  qed
qed

lemma gapless_sorted:
  assumes "gapless srcs"
  shows "sorted (map startTime srcs)"
proof -
  have "startTime (srcs ! i) \<le> startTime (srcs ! Suc i)" if "Suc i < length srcs" for i
  proof -
    have "startTime (srcs ! i) \<le> startTime (srcs ! i) + duration (buffer (srcs ! i))" by simp
    also have "\<dots> \<le> startTime (srcs ! Suc i)" using assms that by (simp add: gapless_def)
    finally show ?thesis .
  qed
  then show ?thesis by (simp add: sorted_iff_nth_Suc)
qed

lemma timeline_same: "sameTimeline s' s \<Longrightarrow> timeline s \<Longrightarrow> timeline s'"
  by (simp add: timeline_def sameTimeline_def)

lemma scheduleSegment_sources:
  "sources (scheduleSegment isOpen t item b s) =
     sources s @ [\<lparr>startTime = (if nextStartTime s < t then t + 0.05 else nextStartTime s),
                   buffer = b, stopped = False\<rparr>]"
  "nextStartTime (scheduleSegment isOpen t item b s) =
     (if nextStartTime s < t then t + 0.05 else nextStartTime s) + duration b"
  by (simp_all add: scheduleSegment_def Let_def)

lemma timeline_scheduleSegment:
  assumes "timeline s"
  shows "timeline (scheduleSegment isOpen t item b s)"
proof -
  let ?c = "if nextStartTime s < t then t + 0.05 else nextStartTime s"
  have c: "nextStartTime s \<le> ?c" by simp
  have ends: "\<forall>x \<in> set (sources s). startTime x + duration (buffer x) \<le> ?c"
    using assms c unfolding timeline_def by (meson order_trans)
  have "gapless (sources s @ [\<lparr>startTime = ?c, buffer = b, stopped = False\<rparr>])"
    using assms ends by (intro gapless_snoc) (simp_all add: timeline_def)
  moreover have "\<forall>x \<in> set (sources s). startTime x + duration (buffer x) \<le> ?c + duration b"
    using ends by (meson add_increasing2 duration_nonneg)
  ultimately show ?thesis
    unfolding timeline_def scheduleSegment_sources by simp
qed

lemma stopSource_props:
  "length (stopSource r srcs) = length srcs"
  "startTime (stopSource r srcs ! i) = startTime (srcs ! i)"
  "buffer (stopSource r srcs ! i) = buffer (srcs ! i)"
proof -
  have upd: "srcs[j := (srcs ! j)\<lparr>stopped := True\<rparr>] ! i =
      (if i = j \<and> j < length srcs then (srcs ! i)\<lparr>stopped := True\<rparr> else srcs ! i)" for j
    by (cases "j < length srcs") (auto simp add: nth_list_update list_update_beyond)
  show "length (stopSource r srcs) = length srcs"
    "startTime (stopSource r srcs ! i) = startTime (srcs ! i)"
    "buffer (stopSource r srcs ! i) = buffer (srcs ! i)"
    by (simp_all add: stopSource_def upd split: option.split)
qed

lemma timeline_toggleAudio:
  assumes "timeline s"
  shows "timeline (toggleAudio s)"
proof -
  have g: "gapless (stopSource r srcs)" if "gapless srcs" for r srcs
    using that unfolding gapless_def by (simp add: stopSource_props)
  have e: "\<forall>x \<in> set (stopSource r srcs). startTime x + duration (buffer x) \<le> c"
    if "\<forall>x \<in> set srcs. startTime x + duration (buffer x) \<le> c" for r srcs c
    using that unfolding all_set_conv_all_nth by (simp add: stopSource_props)
  show ?thesis using assms g e
    by (auto simp add: timeline_def toggleAudio_def Let_def)
qed

lemma timeline_sched [simp]:
  "timeline (scheduleAudio s) = timeline s"
  "timeline (scheduleAudio_loop s) = timeline s"
  "timeline (scheduleAudio_finally s) = timeline s"
  by (simp_all add: scheduleAudio_eq scheduleAudio_loop_eq scheduleAudio_finally_eq timeline_def)

lemma timeline_push [simp]: "timeline (s\<lparr>audioQueue := q\<rparr>) = timeline s"
  by (simp add: timeline_def)

lemma timeline_step:
  assumes "timeline s"
  shows "timeline (step eager isOpen ev s)"
proof (cases "ev = TtsResumed \<or> (\<exists>m. ev = SessionMessage m) \<or> ev = ToggleAudio
    \<or> ev = ContextResumed \<or> (\<exists>t. ev = AudioDecoded t)")
  case False
  then show ?thesis using step_same [of ev eager isOpen s] assms by (auto intro: timeline_same)
next
  case True
  then consider "ev = TtsResumed" | m where "ev = SessionMessage m" | "ev = ToggleAudio"
    | "ev = ContextResumed" | t where "ev = AudioDecoded t" by blast
  then show ?thesis
  proof cases
    case 1
    have "sameTimeline (processNextTts_resumed s) s"
      by (simp add: processNextTts_resumed_def Let_def sameTimeline_def field_frames
          split: option.split promise_state.split)
    then show ?thesis using 1 assms by (auto intro: timeline_same)
  next
    case 2
    have "sameTimeline (handleLiveMessage eager m s) s"
      by (simp add: handleLiveMessage_def Let_def sameTimeline_def field_frames
          split: option.split)
    then show ?thesis using 2 assms by (auto intro: timeline_same)
  next
    case 3
    then show ?thesis using assms by (simp add: timeline_toggleAudio)
  next
    case 4
    have "timeline (s\<lparr>outputAudioContext := Some Running\<rparr>) = timeline s"
      by (simp add: timeline_def)
    then show ?thesis using 4 assms by (simp add: scheduleAudio_resumed_def)
  next
    case 5
    then show ?thesis using assms
      by (simp add: scheduleAudio_decoded_def timeline_scheduleSegment
          split: pass.split sum.split)
  qed
qed

lemma timeline_run:
  "timeline s \<Longrightarrow> timeline (run eager isOpen evs s)"
  unfolding run_def by (induction evs arbitrary: s) (simp_all add: timeline_step)

lemma timeline_initial: "timeline (initialState ctx)"
  by (simp add: timeline_def gapless_def initialState_def)

lemma scheduleAudio_shape:
  "scheduleAudio s =
     s\<lparr>isScheduling :=
         (isScheduling s \<or> (outputAudioContext s \<noteq> None
            \<and> (outputAudioContext s = Some Suspended \<or> audioQueue s \<noteq> []))),
       schedulePass :=
         (if isScheduling s \<or> outputAudioContext s = None then schedulePass s
          else if outputAudioContext s = Some Suspended then AwaitResume
          else if audioQueue s \<noteq> [] then AwaitDecode (hd (audioQueue s))
          else NoPass)\<rparr>"
  by (simp add: scheduleAudio_eq)

lemma scheduleAudio_loop_shape:
  "scheduleAudio_loop s =
     s\<lparr>isScheduling := (isScheduling s \<and> audioQueue s \<noteq> []),
       schedulePass := (if audioQueue s \<noteq> [] then AwaitDecode (hd (audioQueue s)) else NoPass)\<rparr>"
  by (simp add: scheduleAudio_loop_eq)

lemma setMessages_shape:
  "setMessages e u s =
     s\<lparr>pendingUpdates :=
         (if e \<and> pendingUpdates s = [] then [Computed (applyUpdater s u (messages s))]
          else pendingUpdates s @ [u])\<rparr>"
  by (simp add: setMessages_def)

lemma processNextTts_shape:
  "processNextTts s =
     s\<lparr>isProcessingTts := (ttsPromiseQueue s \<noteq> []),
       ttsPromiseQueue := tl (ttsPromiseQueue s),
       ttsAwaiting := (if ttsPromiseQueue s = [] then ttsAwaiting s
                       else Some (hd (ttsPromiseQueue s)))\<rparr>"
  by (simp add: processNextTts_def split: list.split)


lemmas eval_defs =
  run_def handleLiveMessage_def scheduleAudio_shape scheduleAudio_loop_shape
  scheduleAudio_finally_eq setMessages_shape scheduleAudio_decoded_def scheduleSegment_def
  decodeAudioData_def createBuffer_def supported_def requiredLimits_def decode_def
  toggleAudio_def stopSource_def
  initialState_def duration_def Let_def

text \<open>
  Claim C1. In every history of the component the sources are started at non-decreasing
  times, and each one starts no earlier than the previous one's start plus the previous
  one's duration. Each start time is the maximum of the device time and the cursor,
  where the cursor has first been moved to the device time plus 50 ms if it was behind
  the device time; after the start the cursor is that start time plus the duration of
  the decoded segment. (Times are real numbers here.)
\<close>

theorem playback_start_times:
  "(let s = run eager isOpen evs (initialState ctx)
    in sorted (map startTime (sources s))
       \<and> (\<forall>i. Suc i < length (sources s) \<longrightarrow>
              startTime (sources s ! i) + duration (buffer (sources s ! i))
                \<le> startTime (sources s ! Suc i)))
   \<and> (let cursor = (if nextStartTime s0 < currentTime then currentTime + 0.05
                     else nextStartTime s0);
          s1 = scheduleSegment isOpen currentTime item audioBuffer s0
      in sources s1 = sources s0 @
           [\<lparr>startTime = max currentTime cursor, buffer = audioBuffer, stopped = False\<rparr>]
         \<and> nextStartTime s1 = max currentTime cursor + duration audioBuffer)"
proof -
  have "timeline (run eager isOpen evs (initialState ctx))"
    by (intro timeline_run timeline_initial)
  then have g: "gapless (sources (run eager isOpen evs (initialState ctx)))"
    by (simp add: timeline_def)
  have m: "max currentTime (if nextStartTime s0 < currentTime then currentTime + 0.05
                            else nextStartTime s0)
      = (if nextStartTime s0 < currentTime then currentTime + 0.05 else nextStartTime s0)"
    by simp
  show ?thesis
    unfolding Let_def m scheduleSegment_sources
    using g gapless_sorted [OF g] by (simp add: gapless_def)
qed

text \<open>
  Two live segments, the first scheduled at device time 1 (the cursor was behind, so it
  starts at 1.05), the second at device time 1.5 (behind again, it starts at 1.55).
\<close>

theorem playback_start_times_witness:
  "(let s = run False True
              [SessionMessage \<lparr>inputTranscription = None, outputTranscription = None,
                              inlineData = Some [0, 0, 0, 0], turnComplete = False\<rparr>,
               AudioDecoded 1,
               SessionMessage \<lparr>inputTranscription = None, outputTranscription = None,
                              inlineData = Some [1, 0], turnComplete = False\<rparr>,
               AudioDecoded (3 / 2)]
              (initialState (Some Running))
    in map startTime (sources s) = [21 / 20, 31 / 20]
       \<and> startTime (sources s ! 0) + duration (buffer (sources s ! 0)) \<le> startTime (sources s ! 1))"
proof -
  let ?evs = "[SessionMessage \<lparr>inputTranscription = None, outputTranscription = None,
                              inlineData = Some [0, 0, 0, 0], turnComplete = False\<rparr>,
               AudioDecoded 1,
               SessionMessage \<lparr>inputTranscription = None, outputTranscription = None,
                              inlineData = Some [1, 0], turnComplete = False\<rparr>,
               AudioDecoded (3 / 2)]"
  let ?s = "run False True ?evs (initialState (Some Running))"
  have starts: "map startTime (sources ?s) = [21 / 20, 31 / 20]"
    by (simp add: eval_defs)
  then have "length (sources ?s) = 2"
    by (metis length_map length_Cons list.size(3) numeral_2_eq_2)
  moreover from playback_start_times [of False True ?evs "Some Running"]
  have "\<forall>i. Suc i < length (sources ?s) \<longrightarrow>
          startTime (sources ?s ! i) + duration (buffer (sources ?s ! i))
            \<le> startTime (sources ?s ! Suc i)"
    by (simp add: Let_def)
  ultimately have "startTime (sources ?s ! 0) + duration (buffer (sources ?s ! 0))
      \<le> startTime (sources ?s ! 1)"
    by simp
  with starts show ?thesis by (simp add: Let_def)
qed

subsection \<open>The in-flight guard\<close>

lemma idle_same: "sameScheduler s' s \<Longrightarrow> neverIdleWithWork s \<Longrightarrow> neverIdleWithWork s'"
  by (auto simp add: neverIdleWithWork_def sameScheduler_def)

lemma idle_push:
  assumes "neverIdleWithWork s"
  shows "neverIdleWithWork (scheduleAudio (s\<lparr>audioQueue := audioQueue s @ [item]\<rparr>))"
  using assms by (auto simp add: neverIdleWithWork_def scheduleAudio_shape)

lemma idle_fields:
  "neverIdleWithWork (s\<lparr>ttsAwaiting := a\<rparr>) = neverIdleWithWork s"
  "neverIdleWithWork (s\<lparr>pendingUpdates := p\<rparr>) = neverIdleWithWork s"
  "neverIdleWithWork (s\<lparr>currentUserTranscription := u\<rparr>) = neverIdleWithWork s"
  "neverIdleWithWork (s\<lparr>currentModelTranscription := u\<rparr>) = neverIdleWithWork s"
  by (simp_all add: neverIdleWithWork_def)

lemma idle_tts_resumed:
  assumes "neverIdleWithWork s"
  shows "neverIdleWithWork (processNextTts_resumed s)"
proof -
  have a: "neverIdleWithWork (processNextTts s')" if "neverIdleWithWork s'" for s'
    using that by (rule idle_same [OF processNextTts_same(2)])
  have b: "neverIdleWithWork (scheduleAudio (s\<lparr>ttsAwaiting := None,
      audioQueue := audioQueue s @ [item]\<rparr>))" for item
    using idle_push [of "s\<lparr>ttsAwaiting := None\<rparr>" item] assms by (simp add: idle_fields)
  show ?thesis using assms
    by (simp add: processNextTts_resumed_def Let_def a b idle_fields
        split: option.split promise_state.split)
qed

lemma idle_live:
  assumes "neverIdleWithWork s"
  shows "neverIdleWithWork (handleLiveMessage e m s)"
proof -
  have "neverIdleWithWork (scheduleAudio (s'\<lparr>audioQueue := audioQueue s' @ [item]\<rparr>))"
    if "neverIdleWithWork s'" for s' item
    using that by (rule idle_push)
  then show ?thesis using assms
    by (simp add: handleLiveMessage_def Let_def setMessages_shape idle_fields
        split: option.split)
qed

lemma idle_decoded:
  assumes "neverIdleWithWork s"
  shows "neverIdleWithWork (scheduleAudio_decoded isOpen t s)"
  using assms
  by (auto simp add: scheduleAudio_decoded_def scheduleAudio_finally_eq scheduleAudio_loop_shape
      scheduleSegment_def Let_def neverIdleWithWork_def split: pass.split sum.split)

lemma idle_step:
  assumes "neverIdleWithWork s"
  shows "neverIdleWithWork (step eager isOpen ev s)"
proof (cases "ev = TtsResumed \<or> (\<exists>m. ev = SessionMessage m) \<or> ev = ToggleAudio
    \<or> ev = ContextResumed \<or> (\<exists>t. ev = AudioDecoded t)")
  case False
  then show ?thesis using step_same [of ev eager isOpen s] assms by (auto intro: idle_same)
next
  case True
  then consider "ev = TtsResumed" | m where "ev = SessionMessage m" | "ev = ToggleAudio"
    | "ev = ContextResumed" | t where "ev = AudioDecoded t" by blast
  then show ?thesis
  proof cases
    case 1
    then show ?thesis using assms by (simp add: idle_tts_resumed)
  next
    case 2
    then show ?thesis using assms by (simp add: idle_live)
  next
    case 3
    then show ?thesis using assms
      by (auto simp add: toggleAudio_def Let_def neverIdleWithWork_def)
  next
    case 4
    then show ?thesis using assms
      by (auto simp add: scheduleAudio_resumed_def scheduleAudio_loop_shape neverIdleWithWork_def)
  next
    case 5
    then show ?thesis using assms by (simp add: idle_decoded)
  qed
qed

lemma idle_run:
  "neverIdleWithWork s \<Longrightarrow> neverIdleWithWork (run eager isOpen evs s)"
  unfolding run_def by (induction evs arbitrary: s) (simp_all add: idle_step)

lemma idle_initial: "ctx \<noteq> None \<Longrightarrow> neverIdleWithWork (initialState ctx)"
  by (simp add: neverIdleWithWork_def initialState_def)

text \<open>
  Claim C9, as the code has it. The first half of the claim holds: a call while a pass is
  in flight returns the state unchanged. The second half does not: a running pass does
  not call itself again because segments arrived during it (its own loop takes them: the
  loop ends only with the queue empty). What holds: after a successful decode the pass
  shifts the queue and either suspends on the next queued segment or, the queue being
  empty, ends and clears the flag; the \<^verbatim>\<open>finally\<close> block calls \<^verbatim>\<open>scheduleAudio\<close>
  again exactly when the queue is not empty at that point; and in every history of a
  component that has an output context the flag is set whenever the queue is not empty,
  so the scheduler never rests on a non-empty queue.
\<close>

theorem scheduling_pass_guard:
  "(isScheduling s \<longrightarrow> scheduleAudio s = s)
   \<and> (schedulePass s = AwaitDecode item
        \<and> decodeAudioData (decode (audioData item)) requiredLimits 24000 1 = Inr audioBuffer \<longrightarrow>
        (let s1 = scheduleAudio_decoded isOpen currentTime s
         in audioQueue s1 = tl (audioQueue s)
            \<and> (if tl (audioQueue s) = []
               then \<not> isScheduling s1 \<and> schedulePass s1 = NoPass
               else isScheduling s1 = isScheduling s
                    \<and> schedulePass s1 = AwaitDecode (hd (tl (audioQueue s))))))
   \<and> scheduleAudio_finally s =
       (if audioQueue s \<noteq> []
        then scheduleAudio (s\<lparr>isScheduling := False, schedulePass := NoPass\<rparr>)
        else s\<lparr>isScheduling := False, schedulePass := NoPass\<rparr>)
   \<and> (ctx \<noteq> None \<longrightarrow>
        (let s2 = run eager isOpen evs (initialState ctx)
         in (audioQueue s2 \<noteq> [] \<longrightarrow> isScheduling s2)
            \<and> (isScheduling s2 \<longleftrightarrow> schedulePass s2 \<noteq> NoPass)))"
proof -
  have a: "isScheduling s \<longrightarrow> scheduleAudio s = s"
    by (simp add: scheduleAudio.simps)
  have b: "schedulePass s = AwaitDecode item
        \<and> decodeAudioData (decode (audioData item)) requiredLimits 24000 1 = Inr audioBuffer \<longrightarrow>
        (let s1 = scheduleAudio_decoded isOpen currentTime s
         in audioQueue s1 = tl (audioQueue s)
            \<and> (if tl (audioQueue s) = []
               then \<not> isScheduling s1 \<and> schedulePass s1 = NoPass
               else isScheduling s1 = isScheduling s
                    \<and> schedulePass s1 = AwaitDecode (hd (tl (audioQueue s)))))"
    by (simp add: scheduleAudio_decoded_def scheduleAudio_loop_shape scheduleSegment_def Let_def)
  have c: "ctx \<noteq> None \<longrightarrow>
        (let s2 = run eager isOpen evs (initialState ctx)
         in (audioQueue s2 \<noteq> [] \<longrightarrow> isScheduling s2)
            \<and> (isScheduling s2 \<longleftrightarrow> schedulePass s2 \<noteq> NoPass))"
    using idle_run [OF idle_initial, of ctx eager isOpen evs]
    by (auto simp add: neverIdleWithWork_def Let_def)
  show ?thesis
    using a b c scheduleAudio_finally.simps [of s] by simp
qed

lemma initialState_fields:
  "messages (initialState ctx) = [\<lparr>role = Model, msgText = greeting, imageData = None\<rparr>]"
  "pendingUpdates (initialState ctx) = []"
  "isLoading (initialState ctx) = False"
  "isLiveSessionActive (initialState ctx) = False"
  "liveError (initialState ctx) = None"
  "isAudioEnabled (initialState ctx) = True"
  "currentlyPlayingIndex (initialState ctx) = None"
  "liveSession (initialState ctx) = False"
  "inputAudioContext (initialState ctx) = False"
  "outputAudioContext (initialState ctx) = ctx"
  "microphoneStream (initialState ctx) = False"
  "audioWorkletNode (initialState ctx) = False"
  "currentUserTranscription (initialState ctx) = []"
  "currentModelTranscription (initialState ctx) = []"
  "audioQueue (initialState ctx) = []"
  "isAudioPlaying (initialState ctx) = False"
  "isScheduling (initialState ctx) = False"
  "nextStartTime (initialState ctx) = 0"
  "audioSource (initialState ctx) = None"
  "ttsPromiseQueue (initialState ctx) = []"
  "isProcessingTts (initialState ctx) = False"
  "schedulePass (initialState ctx) = NoPass"
  "ttsAwaiting (initialState ctx) = None"
  "sources (initialState ctx) = []"
  "ttsCalls (initialState ctx) = []"
  "timers (initialState ctx) = []"
  by (simp_all add: initialState_def)

lemmas eval2 =
  run_def handleLiveMessage_def scheduleAudio_shape scheduleAudio_loop_shape
  scheduleAudio_finally_eq setMessages_shape scheduleAudio_decoded_def scheduleSegment_def
  decodeAudioData_def createBuffer_def supported_def requiredLimits_def decode_def
  toggleAudio_def stopSource_def
  initialState_fields duration_def Let_def


text \<open>
  Claim C9 as stated fails in this history: a pass starts for one segment, a second
  segment arrives while the first is being decoded, the pass schedules the first and
  goes on, in its own loop, to the second; when it ends the queue is empty, so the
  \<^verbatim>\<open>finally\<close> block does not call \<^verbatim>\<open>scheduleAudio\<close> again, and no pass is in
  flight afterwards although a segment arrived during the pass.
\<close>

theorem pass_takes_new_segments_itself:
  "(let a = \<lparr>inputTranscription = None, outputTranscription = None,
             inlineData = Some [0, 0, 0, 0], turnComplete = False\<rparr>;
        b = \<lparr>inputTranscription = None, outputTranscription = None,
             inlineData = Some [1, 0], turnComplete = False\<rparr>;
        s1 = run False True [SessionMessage a] (initialState (Some Running));
        s2 = run False True [SessionMessage b] s1;
        s3 = run False True [AudioDecoded 1] s2;
        s4 = run False True [AudioDecoded 1] s3
    in isScheduling s1 \<and> map audioData (audioQueue s1) = [[0, 0, 0, 0]]
       \<and> map audioData (audioQueue s2) = [[0, 0, 0, 0], [1, 0]]
       \<and> isScheduling s3 \<and> schedulePass s3 = AwaitDecode \<lparr>audioData = [1, 0], messageIndex = None\<rparr>
       \<and> length (sources s3) = 1
       \<and> audioQueue s4 = [] \<and> length (sources s4) = 2
       \<and> \<not> isScheduling s4 \<and> schedulePass s4 = NoPass)"
proof -
  let ?i = "initialState (Some Running)"
  let ?A = "\<lparr>audioData = [0, 0, 0, 0], messageIndex = None\<rparr> :: audio_item"
  let ?B = "\<lparr>audioData = [1, 0], messageIndex = None\<rparr> :: audio_item"
  let ?bA = "\<lparr>numberOfChannels = 1, frames = 2, sampleRate = 24000, channelData = [[0, 0]]\<rparr>"
  let ?bB = "\<lparr>numberOfChannels = 1, frames = 1, sampleRate = 24000, channelData = [[1 / 32768]]\<rparr>"
  have s1: "run False True [SessionMessage \<lparr>inputTranscription = None, outputTranscription = None,
             inlineData = Some [0, 0, 0, 0], turnComplete = False\<rparr>] ?i
      = ?i\<lparr>audioQueue := [?A], isScheduling := True, schedulePass := AwaitDecode ?A\<rparr>"
    by (simp add: eval2)
  have s2: "run False True [SessionMessage \<lparr>inputTranscription = None, outputTranscription = None,
             inlineData = Some [1, 0], turnComplete = False\<rparr>]
         (?i\<lparr>audioQueue := [?A], isScheduling := True, schedulePass := AwaitDecode ?A\<rparr>)
      = ?i\<lparr>audioQueue := [?A, ?B], isScheduling := True, schedulePass := AwaitDecode ?A\<rparr>"
    by (simp add: eval2)
  have s3: "run False True [AudioDecoded 1]
         (?i\<lparr>audioQueue := [?A, ?B], isScheduling := True, schedulePass := AwaitDecode ?A\<rparr>)
      = ?i\<lparr>audioQueue := [?B], isScheduling := True, schedulePass := AwaitDecode ?B,
            sources := [\<lparr>startTime = 21 / 20, buffer = ?bA, stopped = False\<rparr>],
            nextStartTime := 21 / 20 + 1 / 12000, audioSource := Some 0, isAudioPlaying := True\<rparr>"
    by (simp add: eval2)
  have s4: "run False True [AudioDecoded 1]
         (?i\<lparr>audioQueue := [?B], isScheduling := True, schedulePass := AwaitDecode ?B,
            sources := [\<lparr>startTime = 21 / 20, buffer = ?bA, stopped = False\<rparr>],
            nextStartTime := 21 / 20 + 1 / 12000, audioSource := Some 0, isAudioPlaying := True\<rparr>)
      = ?i\<lparr>audioQueue := [], isScheduling := False, schedulePass := NoPass,
            sources := [\<lparr>startTime = 21 / 20, buffer = ?bA, stopped = False\<rparr>,
                        \<lparr>startTime = 21 / 20 + 1 / 12000, buffer = ?bB, stopped = False\<rparr>],
            nextStartTime := 21 / 20 + 1 / 12000 + 1 / 24000, audioSource := Some 1,
            isAudioPlaying := True\<rparr>"
    by (simp add: eval2)
  show ?thesis
    by (simp only: Let_def s1 s2 s3 s4) simp
qed


text \<open>
  A pass suspended on the first of two queued segments: a further call changes nothing,
  the decode continuation goes on to the second segment, and the flag is set after the
  first live message of a history.
\<close>

theorem scheduling_pass_guard_witness:
  "(let A = \<lparr>audioData = [0, 0, 0, 0], messageIndex = None\<rparr>;
        B = \<lparr>audioData = [1, 0], messageIndex = None\<rparr>;
        s = (initialState (Some Running))
              \<lparr>audioQueue := [A, B], isScheduling := True, schedulePass := AwaitDecode A\<rparr>
    in isScheduling s \<and> scheduleAudio s = s
       \<and> schedulePass s = AwaitDecode A
       \<and> decodeAudioData (decode (audioData A)) requiredLimits 24000 1 =
           Inr \<lparr>numberOfChannels = 1, frames = 2, sampleRate = 24000, channelData = [[0, 0]]\<rparr>
       \<and> audioQueue (scheduleAudio_decoded True 1 s) = [B]
       \<and> isScheduling (scheduleAudio_decoded True 1 s)
       \<and> schedulePass (scheduleAudio_decoded True 1 s) = AwaitDecode B
       \<and> Some Running \<noteq> None
       \<and> isScheduling (run False True
            [SessionMessage \<lparr>inputTranscription = None, outputTranscription = None,
                             inlineData = Some [0, 0, 0, 0], turnComplete = False\<rparr>]
            (initialState (Some Running))))"
proof -
  let ?A = "\<lparr>audioData = [0, 0, 0, 0], messageIndex = None\<rparr> :: audio_item"
  let ?B = "\<lparr>audioData = [1, 0], messageIndex = None\<rparr> :: audio_item"
  let ?s = "(initialState (Some Running))
              \<lparr>audioQueue := [?A, ?B], isScheduling := True, schedulePass := AwaitDecode ?A\<rparr>"
  let ?b = "\<lparr>numberOfChannels = 1, frames = 2, sampleRate = 24000, channelData = [[0, 0]]\<rparr>"
  let ?evs = "[SessionMessage \<lparr>inputTranscription = None, outputTranscription = None,
                             inlineData = Some [0, 0, 0, 0], turnComplete = False\<rparr>]"
  have flag: "isScheduling ?s" and pass: "schedulePass ?s = AwaitDecode ?A"
    and queue: "audioQueue ?s = [?A, ?B]"
    by simp_all
  have dec: "decodeAudioData (decode (audioData ?A)) requiredLimits 24000 1 = Inr ?b"
    by (simp add: decodeAudioData_def createBuffer_def supported_def requiredLimits_def decode_def)
  have q: "audioQueue (run False True ?evs (initialState (Some Running))) \<noteq> []"
    by (simp add: eval2)
  note inst = scheduling_pass_guard [where s = ?s and item = ?A and audioBuffer = ?b
      and isOpen = True and currentTime = 1 and ctx = "Some Running" and eager = False
      and evs = ?evs]
  have 1: "scheduleAudio ?s = ?s"
    using inst [THEN conjunct1] flag by (rule mp)
  have 2: "let s1 = scheduleAudio_decoded True 1 ?s
           in audioQueue s1 = tl (audioQueue ?s)
              \<and> (if tl (audioQueue ?s) = []
                 then \<not> isScheduling s1 \<and> schedulePass s1 = NoPass
                 else isScheduling s1 = isScheduling ?s
                      \<and> schedulePass s1 = AwaitDecode (hd (tl (audioQueue ?s))))"
    using inst [THEN conjunct2, THEN conjunct1] pass dec by blast
  have 3: "let s2 = run False True ?evs (initialState (Some Running))
           in (audioQueue s2 \<noteq> [] \<longrightarrow> isScheduling s2)
              \<and> (isScheduling s2 \<longleftrightarrow> schedulePass s2 \<noteq> NoPass)"
    using inst [THEN conjunct2, THEN conjunct2, THEN conjunct2] by simp
  from 2 have dd: "audioQueue (scheduleAudio_decoded True 1 ?s) = [?B]"
    "isScheduling (scheduleAudio_decoded True 1 ?s)"
    "schedulePass (scheduleAudio_decoded True 1 ?s) = AwaitDecode ?B"
    unfolding Let_def queue by simp_all
  from 3 q have rr: "isScheduling (run False True ?evs (initialState (Some Running)))"
    unfolding Let_def by blast
  show ?thesis
    unfolding Let_def using flag 1 pass dec dd rr by (intro conjI) simp_all
qed

subsection \<open>Muting\<close>

lemma run_simps:
  "run eager isOpen [] s = s"
  "run eager isOpen (ev # evs) s = run eager isOpen evs (step eager isOpen ev s)"
  by (simp_all add: run_def)

lemma handleLiveMessage_audio:
  assumes "inlineData message = Some d" "d \<noteq> []"
  shows "audioQueue (handleLiveMessage eager message s) =
           audioQueue s @ [\<lparr>audioData = d, messageIndex = None\<rparr>]"
    and "isAudioEnabled (handleLiveMessage eager message s) = isAudioEnabled s"
    and "sources (handleLiveMessage eager message s) = sources s"
    and "nextStartTime (handleLiveMessage eager message s) = nextStartTime s"
    and "\<not> isScheduling s \<Longrightarrow> audioQueue s = [] \<Longrightarrow> outputAudioContext s = Some Running \<Longrightarrow>
           isScheduling (handleLiveMessage eager message s)
           \<and> schedulePass (handleLiveMessage eager message s) =
               AwaitDecode \<lparr>audioData = d, messageIndex = None\<rparr>"
  using assms
  by (simp_all add: handleLiveMessage_def Let_def setMessages_shape scheduleAudio_shape
      split: option.split)

text \<open>
  Claim C4, as the code has it. Toggling audio output off empties the queue, clears the
  marker and disables output. A segment that a live session produces afterwards is
  appended to the queue, and the scheduler does not look at the output flag: if no pass
  is in flight a pass starts at once and, when the decode is done, starts the segment's
  source, while output is still disabled.
\<close>

theorem toggle_then_live_segment:
  "(isAudioEnabled s \<longrightarrow>
      (let s1 = toggleAudio s
       in \<not> isAudioEnabled s1 \<and> audioQueue s1 = [] \<and> currentlyPlayingIndex s1 = None))
   \<and> (\<not> isAudioEnabled s2 \<and> inlineData message = Some d \<and> d \<noteq> [] \<longrightarrow>
      (let item = \<lparr>audioData = d, messageIndex = None\<rparr>;
           s3 = handleLiveMessage eager message s2
       in audioQueue s3 = audioQueue s2 @ [item] \<and> \<not> isAudioEnabled s3
          \<and> (\<not> isScheduling s2 \<and> audioQueue s2 = [] \<and> outputAudioContext s2 = Some Running
               \<longrightarrow> isScheduling s3 \<and> schedulePass s3 = AwaitDecode item
                   \<and> (\<forall>audioBuffer.
                        decodeAudioData (decode d) requiredLimits 24000 1 = Inr audioBuffer \<longrightarrow>
                        (let s4 = scheduleAudio_decoded isOpen currentTime s3
                         in sources s4 = sources s2 @
                              [\<lparr>startTime = (if nextStartTime s2 < currentTime
                                               then currentTime + 0.05 else nextStartTime s2),
                                buffer = audioBuffer, stopped = False\<rparr>]
                            \<and> \<not> isAudioEnabled s4)))))"
proof -
  have toggle: "isAudioEnabled s \<longrightarrow>
      (let s1 = toggleAudio s
       in \<not> isAudioEnabled s1 \<and> audioQueue s1 = [] \<and> currentlyPlayingIndex s1 = None)"
    by (simp add: toggleAudio_def Let_def)
  have live: "let item = \<lparr>audioData = d, messageIndex = None\<rparr>;
           s3 = handleLiveMessage eager message s2
       in audioQueue s3 = audioQueue s2 @ [item] \<and> \<not> isAudioEnabled s3
          \<and> (\<not> isScheduling s2 \<and> audioQueue s2 = [] \<and> outputAudioContext s2 = Some Running
               \<longrightarrow> isScheduling s3 \<and> schedulePass s3 = AwaitDecode item
                   \<and> (\<forall>audioBuffer.
                        decodeAudioData (decode d) requiredLimits 24000 1 = Inr audioBuffer \<longrightarrow>
                        (let s4 = scheduleAudio_decoded isOpen currentTime s3
                         in sources s4 = sources s2 @
                              [\<lparr>startTime = (if nextStartTime s2 < currentTime
                                               then currentTime + 0.05 else nextStartTime s2),
                                buffer = audioBuffer, stopped = False\<rparr>]
                            \<and> \<not> isAudioEnabled s4)))"
    if h: "\<not> isAudioEnabled s2" "inlineData message = Some d" "d \<noteq> []"
  proof -
    note f = handleLiveMessage_audio [OF h(2,3), where eager = eager and s = s2]
    have dec: "sources (scheduleAudio_decoded isOpen currentTime (handleLiveMessage eager message s2))
          = sources s2 @ [\<lparr>startTime = (if nextStartTime s2 < currentTime
                                          then currentTime + 0.05 else nextStartTime s2),
                           buffer = audioBuffer, stopped = False\<rparr>]
        \<and> \<not> isAudioEnabled (scheduleAudio_decoded isOpen currentTime
               (handleLiveMessage eager message s2))"
      if idle: "\<not> isScheduling s2" "audioQueue s2 = []" "outputAudioContext s2 = Some Running"
        and ok: "decodeAudioData (decode d) requiredLimits 24000 1 = Inr audioBuffer"
      for audioBuffer
      using f(5) [OF idle] f(1-4) h(1) ok
      by (simp add: scheduleAudio_decoded_def scheduleAudio_loop_shape scheduleSegment_def Let_def)
    show ?thesis
      unfolding Let_def using f(1,2) h(1) f(5) dec by auto
  qed
  show ?thesis using toggle live by blast
qed

lemmas step_eval =
  step.simps handleLiveMessage_def scheduleAudio_shape scheduleAudio_loop_shape
  scheduleAudio_finally_eq setMessages_shape scheduleAudio_decoded_def scheduleSegment_def
  scheduleAudio_resumed_def decodeAudioData_def createBuffer_def supported_def
  requiredLimits_def decode_def toggleAudio_def stopSource_def startLiveSession_def
  getUserMedia_resolved_def onopen_def connect_resolved_def initialState_fields duration_def
  Let_def

text \<open>
  Claim C4 as stated fails in this history: a live session is started and becomes
  active; it delivers a segment, which is decoded and started; with that segment
  playing and the scheduler idle, output is toggled off; the session, still active,
  delivers another segment. It is queued, a pass starts for it at once, and when the
  decode is done its source is started: it is in the list of started sources, not
  stopped, and output is still disabled.
\<close>

theorem muted_live_segment_is_scheduled:
  "(let seg = (\<lambda>d. SessionMessage \<lparr>inputTranscription = None, outputTranscription = None,
                                      inlineData = Some d, turnComplete = False\<rparr>);
        s2 = run False True
               [StartLive, MicGranted, SessionOpen InputReady, SessionConnected,
                seg [1, 0], AudioDecoded 1]
               (initialState (Some Running));
        s3 = step False True ToggleAudio s2;
        s4 = step False True (seg [4, 0]) s3;
        s5 = step False True (AudioDecoded 2) s4
    in isLiveSessionActive s2 \<and> isAudioEnabled s2 \<and> \<not> isScheduling s2
       \<and> map stopped (sources s2) = [False]
       \<and> isLiveSessionActive s3 \<and> \<not> isAudioEnabled s3 \<and> audioQueue s3 = []
       \<and> currentlyPlayingIndex s3 = None \<and> map stopped (sources s3) = [True]
       \<and> map audioData (audioQueue s4) = [[4, 0]] \<and> isScheduling s4
       \<and> \<not> isAudioEnabled s5 \<and> audioQueue s5 = []
       \<and> map (\<lambda>x. (channelData (buffer x), startTime x, stopped x)) (sources s5) =
           [([[1 / 32768]], 21 / 20, True),
            ([[4 / 32768]], 41 / 20, False)])"
proof -
  let ?i = "initialState (Some Running)"
  let ?seg = "\<lambda>d. SessionMessage \<lparr>inputTranscription = None, outputTranscription = None,
                                    inlineData = Some d, turnComplete = False\<rparr>"
  let ?it = "\<lambda>d. \<lparr>audioData = d, messageIndex = None\<rparr> :: audio_item"
  let ?buf = "\<lambda>x. \<lparr>numberOfChannels = 1, frames = 1, sampleRate = 24000,
                    channelData = [[x :: real]]\<rparr>"
  let ?src = "\<lambda>t x st. \<lparr>startTime = t, buffer = ?buf x, stopped = st\<rparr>"
  let ?a = "?i\<lparr>isLiveSessionActive := True,
               pendingUpdates := [Append \<lparr>role = User, msgText = ellipsis, imageData = None\<rparr>],
               microphoneStream := True, inputAudioContext := True, audioWorkletNode := True,
               liveSession := True\<rparr>"
  let ?s1 = "?a\<lparr>audioQueue := [?it [1, 0]], isScheduling := True,
                schedulePass := AwaitDecode (?it [1, 0])\<rparr>"
  let ?s2 = "?a\<lparr>sources := [?src (21 / 20) (1 / 32768) False],
                nextStartTime := 21 / 20 + 1 / 24000, audioSource := Some 0,
                isAudioPlaying := True\<rparr>"
  let ?s3 = "?s2\<lparr>isAudioEnabled := False, sources := [?src (21 / 20) (1 / 32768) True]\<rparr>"
  let ?s4 = "?s3\<lparr>audioQueue := [?it [4, 0]], isScheduling := True,
                 schedulePass := AwaitDecode (?it [4, 0])\<rparr>"
  let ?s5 = "?s3\<lparr>sources := [?src (21 / 20) (1 / 32768) True,
                             ?src (41 / 20) (4 / 32768) False],
                 nextStartTime := 41 / 20 + 1 / 24000, audioSource := Some 1,
                 isAudioPlaying := True\<rparr>"
  have a: "run False True [StartLive, MicGranted, SessionOpen InputReady, SessionConnected] ?i
             = ?a"
    by (simp add: run_simps step_eval)
  have 1: "step False True (?seg [1, 0]) ?a = ?s1" by (simp add: step_eval)
  have 2: "step False True (AudioDecoded 1) ?s1 = ?s2" by (simp add: step_eval)
  have 3: "step False True ToggleAudio ?s2 = ?s3" by (simp add: step_eval)
  have 4: "step False True (?seg [4, 0]) ?s3 = ?s4" by (simp add: step_eval)
  have 5: "step False True (AudioDecoded 2) ?s4 = ?s5" by (simp add: step_eval)
  have r2: "run False True
               [StartLive, MicGranted, SessionOpen InputReady, SessionConnected,
                ?seg [1, 0], AudioDecoded 1] ?i = ?s2"
    using a by (simp only: run_simps 1 2)
  show ?thesis
    by (simp only: Let_def r2 3 4 5) (simp add: initialState_fields)
qed

text \<open>
  The output context is still suspended when an active live session delivers two
  segments: they wait in the queue while the pass waits for \<^verbatim>\<open>resume()\<close>. Output is
  toggled off, which empties the queue; the pass resumes and ends. Then the session
  delivers a segment on the idle scheduler.
\<close>

theorem toggle_then_live_segment_witness:
  "(let seg = (\<lambda>d. \<lparr>inputTranscription = None, outputTranscription = None,
                      inlineData = Some d, turnComplete = False\<rparr>);
        s = run False True
              [StartLive, MicGranted, SessionOpen InputReady, SessionConnected,
               SessionMessage (seg [2, 0]), SessionMessage (seg [3, 0])]
              (initialState (Some Suspended));
        s2 = run False True [ToggleAudio, ContextResumed] s;
        item = \<lparr>audioData = [4, 0], messageIndex = None\<rparr>;
        audioBuffer = \<lparr>numberOfChannels = 1, frames = 1, sampleRate = 24000,
                       channelData = [[4 / 32768]]\<rparr>;
        s3 = handleLiveMessage False (seg [4, 0]) s2
    in isAudioEnabled s \<and> map audioData (audioQueue s) = [[2, 0], [3, 0]]
       \<and> \<not> isAudioEnabled (toggleAudio s) \<and> audioQueue (toggleAudio s) = []
       \<and> currentlyPlayingIndex (toggleAudio s) = None
       \<and> \<not> isAudioEnabled s2 \<and> inlineData (seg [4, 0]) = Some [4, 0]
       \<and> [4, 0] \<noteq> ([] :: byte list)
       \<and> \<not> isScheduling s2 \<and> audioQueue s2 = [] \<and> outputAudioContext s2 = Some Running
       \<and> decodeAudioData (decode [4, 0]) requiredLimits 24000 1 = Inr audioBuffer
       \<and> audioQueue s3 = [item] \<and> isScheduling s3 \<and> schedulePass s3 = AwaitDecode item
       \<and> sources (scheduleAudio_decoded True 1 s3) =
            [\<lparr>startTime = 21 / 20, buffer = audioBuffer, stopped = False\<rparr>]
       \<and> \<not> isAudioEnabled (scheduleAudio_decoded True 1 s3))"
proof -
  let ?j = "initialState (Some Suspended)"
  let ?m = "\<lambda>d. \<lparr>inputTranscription = None, outputTranscription = None,
                  inlineData = Some d, turnComplete = False\<rparr>"
  let ?it = "\<lambda>d. \<lparr>audioData = d, messageIndex = None\<rparr> :: audio_item"
  let ?a = "?j\<lparr>isLiveSessionActive := True,
               pendingUpdates := [Append \<lparr>role = User, msgText = ellipsis, imageData = None\<rparr>],
               microphoneStream := True, inputAudioContext := True, audioWorkletNode := True,
               liveSession := True\<rparr>"
  let ?q1 = "?a\<lparr>audioQueue := [?it [2, 0]], isScheduling := True, schedulePass := AwaitResume\<rparr>"
  let ?s = "?q1\<lparr>audioQueue := [?it [2, 0], ?it [3, 0]]\<rparr>"
  let ?t = "?q1\<lparr>audioQueue := [], isAudioEnabled := False\<rparr>"
  let ?s2 = "?a\<lparr>isAudioEnabled := False, outputAudioContext := Some Running\<rparr>"
  let ?item = "?it [4, 0]"
  let ?b = "\<lparr>numberOfChannels = 1, frames = 1, sampleRate = 24000,
             channelData = [[4 / 32768]]\<rparr>"
  let ?s3 = "handleLiveMessage False (?m [4, 0]) ?s2"
  have a: "run False True [StartLive, MicGranted, SessionOpen InputReady, SessionConnected] ?j
             = ?a"
    by (simp add: run_simps step_eval)
  have 1: "step False True (SessionMessage (?m [2, 0])) ?a = ?q1" by (simp add: step_eval)
  have 2: "step False True (SessionMessage (?m [3, 0])) ?q1 = ?s" by (simp add: step_eval)
  have 3: "step False True ToggleAudio ?s = ?t" by (simp add: step_eval)
  have 4: "step False True ContextResumed ?t = ?s2" by (simp add: step_eval)
  have rs: "run False True
              [StartLive, MicGranted, SessionOpen InputReady, SessionConnected,
               SessionMessage (?m [2, 0]), SessionMessage (?m [3, 0])] ?j = ?s"
    using a by (simp only: run_simps 1 2)
  have r2: "run False True [ToggleAudio, ContextResumed] ?s = ?s2"
    by (simp only: run_simps 3 4)
  have en: "isAudioEnabled ?s" and q: "map audioData (audioQueue ?s) = [[2, 0], [3, 0]]"
    by (simp_all add: initialState_fields)
  have muted: "\<not> isAudioEnabled ?s2 \<and> inlineData (?m [4, 0]) = Some [4, 0]
      \<and> [4, 0] \<noteq> ([] :: byte list)"
    by simp
  have idle: "\<not> isScheduling ?s2 \<and> audioQueue ?s2 = [] \<and> outputAudioContext ?s2 = Some Running"
    by (simp add: initialState_fields)
  have dec: "decodeAudioData (decode [4, 0]) requiredLimits 24000 1 = Inr ?b"
    by (simp add: decodeAudioData_def createBuffer_def supported_def requiredLimits_def
        decode_def)
  have cur: "nextStartTime ?s2 = 0" "sources ?s2 = []" by (simp_all add: initialState_fields)
  note inst = toggle_then_live_segment [where s = ?s and ?s2.0 = ?s2 and message = "?m [4, 0]"
      and d = "[4, 0]" and eager = False and isOpen = True and currentTime = 1]
  from inst [THEN conjunct1, THEN mp, OF en]
  have t: "\<not> isAudioEnabled (toggleAudio ?s)" "audioQueue (toggleAudio ?s) = []"
    "currentlyPlayingIndex (toggleAudio ?s) = None"
    unfolding Let_def by blast+
  from inst [THEN conjunct2, THEN mp, OF muted]
  have l: "audioQueue ?s3 = audioQueue ?s2 @ [?item]"
    "\<not> isScheduling ?s2 \<and> audioQueue ?s2 = [] \<and> outputAudioContext ?s2 = Some Running
       \<longrightarrow> isScheduling ?s3 \<and> schedulePass ?s3 = AwaitDecode ?item
           \<and> (\<forall>audioBuffer.
                decodeAudioData (decode [4, 0]) requiredLimits 24000 1 = Inr audioBuffer \<longrightarrow>
                (let s4 = scheduleAudio_decoded True 1 ?s3
                 in sources s4 = sources ?s2 @
                      [\<lparr>startTime = (if nextStartTime ?s2 < 1 then 1 + 0.05
                                       else nextStartTime ?s2),
                        buffer = audioBuffer, stopped = False\<rparr>]
                    \<and> \<not> isAudioEnabled s4))"
    unfolding Let_def by blast+
  from l(2) [THEN mp, OF idle]
  have p: "isScheduling ?s3" "schedulePass ?s3 = AwaitDecode ?item"
    "\<forall>audioBuffer.
       decodeAudioData (decode [4, 0]) requiredLimits 24000 1 = Inr audioBuffer \<longrightarrow>
                (let s4 = scheduleAudio_decoded True 1 ?s3
                 in sources s4 = sources ?s2 @
                      [\<lparr>startTime = (if nextStartTime ?s2 < 1 then 1 + 0.05
                                       else nextStartTime ?s2),
                        buffer = audioBuffer, stopped = False\<rparr>]
                    \<and> \<not> isAudioEnabled s4)"
    by blast+
  from p(3) dec
  have d4: "sources (scheduleAudio_decoded True 1 ?s3) = sources ?s2 @
              [\<lparr>startTime = (if nextStartTime ?s2 < 1 then 1 + 0.05 else nextStartTime ?s2),
                buffer = ?b, stopped = False\<rparr>]"
    "\<not> isAudioEnabled (scheduleAudio_decoded True 1 ?s3)"
    unfolding Let_def by blast+
  have q3: "audioQueue ?s3 = [?item]" using l(1) idle by simp
  have d4': "sources (scheduleAudio_decoded True 1 ?s3) =
              [\<lparr>startTime = 21 / 20, buffer = ?b, stopped = False\<rparr>]"
    using d4(1) unfolding cur by simp
  show ?thesis
    unfolding Let_def rs r2
    using en q t muted idle dec q3 p(1,2) d4' d4(2) by (intro conjI) blast+
qed

text \<open>
  \<^verbatim>\<open>toggleAudio\<close> calls \<^verbatim>\<open>stop\<close> on the node that \<^verbatim>\<open>audioSourceRef\<close> holds, the
  one started last. When two segments arrive one after the other, both sources are
  started, the second for the time the first ends; a toggle then stops the second only,
  and the first, which is the one playing, goes on.
\<close>

lemma toggle_stops_last_started_source:
  "(let seg = (\<lambda>d. SessionMessage \<lparr>inputTranscription = None, outputTranscription = None,
                                      inlineData = Some d, turnComplete = False\<rparr>);
        s = run False True [seg [1, 0], AudioDecoded 1, seg [2, 0], AudioDecoded 1]
              (initialState (Some Running))
    in map (\<lambda>x. (startTime x, stopped x)) (sources s) =
         [(21 / 20, False), (21 / 20 + 1 / 24000, False)]
       \<and> audioSource s = Some 1
       \<and> map stopped (sources (step False True ToggleAudio s)) = [False, True])"
proof -
  let ?i = "initialState (Some Running)"
  let ?seg = "\<lambda>d. SessionMessage \<lparr>inputTranscription = None, outputTranscription = None,
                                    inlineData = Some d, turnComplete = False\<rparr>"
  let ?it = "\<lambda>d. \<lparr>audioData = d, messageIndex = None\<rparr> :: audio_item"
  let ?buf = "\<lambda>x. \<lparr>numberOfChannels = 1, frames = 1, sampleRate = 24000,
                    channelData = [[x :: real]]\<rparr>"
  let ?src = "\<lambda>t x st. \<lparr>startTime = t, buffer = ?buf x, stopped = st\<rparr>"
  let ?s1 = "?i\<lparr>audioQueue := [?it [1, 0]], isScheduling := True,
                schedulePass := AwaitDecode (?it [1, 0])\<rparr>"
  let ?s2 = "?i\<lparr>sources := [?src (21 / 20) (1 / 32768) False],
                nextStartTime := 21 / 20 + 1 / 24000, audioSource := Some 0,
                isAudioPlaying := True\<rparr>"
  let ?s3 = "?s2\<lparr>audioQueue := [?it [2, 0]], isScheduling := True,
                 schedulePass := AwaitDecode (?it [2, 0])\<rparr>"
  let ?s4 = "?s2\<lparr>sources := [?src (21 / 20) (1 / 32768) False,
                             ?src (21 / 20 + 1 / 24000) (2 / 32768) False],
                 nextStartTime := 21 / 20 + 2 / 24000, audioSource := Some 1\<rparr>"
  have 1: "step False True (?seg [1, 0]) ?i = ?s1" by (simp add: step_eval)
  have 2: "step False True (AudioDecoded 1) ?s1 = ?s2" by (simp add: step_eval)
  have 3: "step False True (?seg [2, 0]) ?s2 = ?s3" by (simp add: step_eval)
  have 4: "step False True (AudioDecoded 1) ?s3 = ?s4" by (simp add: step_eval)
  have r: "run False True [?seg [1, 0], AudioDecoded 1, ?seg [2, 0], AudioDecoded 1] ?i = ?s4"
    by (simp only: run_simps 1 2 3 4)
  have t: "map stopped (sources (step False True ToggleAudio ?s4)) = [False, True]"
    by (simp add: step_eval)
  show ?thesis
    by (simp only: Let_def r t) (simp add: initialState_fields)
qed
section \<open>TTS request queue: order of playback\<close>



















section \<open>Text chat: what is sent to synthesis\<close>

lemma blank_noop: "isBlank t \<Longrightarrow> processTtsQueue t idx s = s"
  by (simp add: processTtsQueue_def)

lemma chunk_step:
  "cIsAudioEnabled (fst (handleSendMessage_chunk eager t (c, s))) = cIsAudioEnabled c"
  "cIsLiveSessionActive (fst (handleSendMessage_chunk eager t (c, s))) = cIsLiveSessionActive c"
  "cMessagesLength (fst (handleSendMessage_chunk eager t (c, s))) = cMessagesLength c"
  "fullText (fst (handleSendMessage_chunk eager t (c, s))) = fullText c @ t"
  "map ttsText (ttsCalls (snd (handleSendMessage_chunk eager t (c, s)))) =
     map ttsText (ttsCalls s) @
       (if cIsAudioEnabled c \<and> \<not> cIsLiveSessionActive c
           \<and> (10 < length t \<or> hasSentenceEnd t) \<and> \<not> isBlank t then [t] else [])"
  by (auto simp add: handleSendMessage_chunk_def Let_def processTtsQueue_def textToSpeech_def
      processNextTts_shape setMessages_shape hasSentenceEnd_def isBlank_def)

text \<open>
  A send that was started with audio disabled, or while a live session was active,
  creates no TTS job, whatever the chunks are.
\<close>

lemma gate_closed_no_tts:
  "\<not> cIsAudioEnabled c \<or> cIsLiveSessionActive c \<Longrightarrow>
     map ttsText (ttsCalls (snd (fold (handleSendMessage_chunk eager) chunks (c, s)))) =
       map ttsText (ttsCalls s)"
proof (induction chunks arbitrary: c s)
  case Nil
  then show ?case by simp
next
  case (Cons t chunks)
  obtain c1 s1 where r: "handleSendMessage_chunk eager t (c, s) = (c1, s1)"
    by (cases "handleSendMessage_chunk eager t (c, s)")
  have c1: "cIsAudioEnabled c1 = cIsAudioEnabled c"
    "cIsLiveSessionActive c1 = cIsLiveSessionActive c"
    using chunk_step(1,2) [of eager t c s] r by simp_all
  have s1: "map ttsText (ttsCalls s1) = map ttsText (ttsCalls s)"
    using chunk_step(5) [of eager t c s] r Cons.prems by auto
  show ?case
    using Cons.IH [of c1 s1] c1 s1 r Cons.prems by simp
qed

text \<open>
  Claim C5, as the code has it. The claim has chunk 2 trigger one job whose text is the
  text accumulated so far. The loop does accumulate the text, for display, but what it
  passes to \<^verbatim>\<open>processTtsQueue\<close> is the text of the chunk alone, and the threshold is
  tested on the chunk alone. What holds, for any chunks, when the send was started with
  audio enabled and no live session: the texts submitted for synthesis are, in order,
  exactly the chunks that are each longer than 10 code units or contain \<open>.\<close>, \<open>!\<close>
  or \<open>?\<close> (and are not blank). For the three chunks of the claim this is the one job
  of chunk 2, with the text of chunk 2; the text of chunks 1 and 3 is never submitted.
\<close>

theorem chunk_alone_is_submitted:
  "cIsAudioEnabled c \<and> \<not> cIsLiveSessionActive c \<longrightarrow>
     map ttsText (ttsCalls (snd (fold (handleSendMessage_chunk eager) chunks (c, s)))) =
       map ttsText (ttsCalls s) @
         filter (\<lambda>t. (10 < length t \<or> hasSentenceEnd t) \<and> \<not> isBlank t) chunks"
proof (induction chunks arbitrary: c s)
  case Nil
  then show ?case by simp
next
  case (Cons t chunks)
  obtain c1 s1 where r: "handleSendMessage_chunk eager t (c, s) = (c1, s1)"
    by (cases "handleSendMessage_chunk eager t (c, s)")
  have c1: "cIsAudioEnabled c1 = cIsAudioEnabled c"
    "cIsLiveSessionActive c1 = cIsLiveSessionActive c"
    using chunk_step(1,2) [of eager t c s] r by simp_all
  have s1: "map ttsText (ttsCalls s1) = map ttsText (ttsCalls s) @
       (if cIsAudioEnabled c \<and> \<not> cIsLiveSessionActive c
           \<and> (10 < length t \<or> hasSentenceEnd t) \<and> \<not> isBlank t then [t] else [])"
    using chunk_step(5) [of eager t c s] r by simp
  show ?case
    using Cons.IH [of c1 s1] c1 s1 r by simp
qed


text \<open>
  The chunks \<^verbatim>\<open>Xin\<close>, \<^verbatim>\<open>chao!\<close> (with a grave accent on the a) and \<^verbatim>\<open>ban\<close> (with a dot
  below the a), as code units.
\<close>

theorem chunk_alone_is_submitted_witness:
  "(let c = \<lparr>cIsAudioEnabled = True, cIsLiveSessionActive = False, cMessagesLength = 1,
             fullText = []\<rparr>
    in cIsAudioEnabled c \<and> \<not> cIsLiveSessionActive c
       \<and> map ttsText (ttsCalls (snd (fold (handleSendMessage_chunk False)
              [[88, 105, 110], [99, 104, 224, 111, 33], [98, 7841, 110]]
              (c, initialState (Some Running))))) = [[99, 104, 224, 111, 33]])"
proof -
  let ?c = "\<lparr>cIsAudioEnabled = True, cIsLiveSessionActive = False, cMessagesLength = 1,
             fullText = []\<rparr>"
  have flags: "cIsAudioEnabled ?c \<and> \<not> cIsLiveSessionActive ?c" by simp
  from chunk_alone_is_submitted [where c = ?c and eager = False
      and chunks = "[[88, 105, 110], [99, 104, 224, 111, 33], [98, 7841, 110]]"
      and s = "initialState (Some Running)", THEN mp, OF flags]
  have "map ttsText (ttsCalls (snd (fold (handleSendMessage_chunk False)
              [[88, 105, 110], [99, 104, 224, 111, 33], [98, 7841, 110]]
              (?c, initialState (Some Running))))) = [[99, 104, 224, 111, 33]]"
    by (simp add: initialState_fields hasSentenceEnd_def isBlank_def isWhiteSpace_def)
  with flags show ?thesis unfolding Let_def by blast
qed

lemmas send_eval =
  handleSendMessage_def handleSendMessage_chunk_def processTtsQueue_def textToSpeech_def
  processNextTts_shape setMessages_shape hasSentenceEnd_def isBlank_def isWhiteSpace_def
  toggleAudio_def stopSource_def initialState_fields Let_def

text \<open>
  Claim C5 as stated fails on its own scenario: after the send of a message and the
  three chunks, the one call made has the text of chunk 2, while the accumulated text at
  that point is that of chunks 1 and 2 together (with or without a space between them).
\<close>

theorem synthesis_text_is_not_accumulated:
  "(let i = initialState (Some Running);
        c = \<lparr>cIsAudioEnabled = True, cIsLiveSessionActive = False, cMessagesLength = 1,
             fullText = []\<rparr>;
        s0 = i\<lparr>pendingUpdates :=
                 [Append \<lparr>role = User, msgText = [104, 105], imageData = None\<rparr>,
                  Append \<lparr>role = Model, msgText = [], imageData = None\<rparr>],
               isLoading := True\<rparr>;
        r1 = handleSendMessage_chunk False [88, 105, 110] (c, s0);
        r2 = handleSendMessage_chunk False [99, 104, 224, 111, 33] r1;
        r3 = handleSendMessage_chunk False [98, 7841, 110] r2
    in handleSendMessage False [104, 105] None i = Some (c, s0)
       \<and> ttsCalls (snd r1) = []
       \<and> ttsCalls (snd r2) = [\<lparr>ttsText = [99, 104, 224, 111, 33], ttsResult = Pending\<rparr>]
       \<and> fullText (fst r2) = [88, 105, 110, 99, 104, 224, 111, 33]
       \<and> ttsCalls (snd r3) = ttsCalls (snd r2)
       \<and> [99, 104, 224, 111, 33] \<noteq> ([88, 105, 110, 99, 104, 224, 111, 33] :: jsstring)
       \<and> [99, 104, 224, 111, 33] \<noteq> ([88, 105, 110, 32, 99, 104, 224, 111, 33] :: jsstring))"
proof -
  let ?i = "initialState (Some Running)"
  let ?c = "\<lparr>cIsAudioEnabled = True, cIsLiveSessionActive = False, cMessagesLength = 1,
             fullText = []\<rparr>"
  let ?user = "Append \<lparr>role = User, msgText = [104, 105], imageData = None\<rparr>"
  let ?model = "Append \<lparr>role = Model, msgText = [], imageData = None\<rparr>"
  let ?s0 = "?i\<lparr>pendingUpdates := [?user, ?model], isLoading := True\<rparr>"
  let ?c1 = "?c\<lparr>fullText := [88, 105, 110]\<rparr>"
  let ?s1 = "?s0\<lparr>pendingUpdates := [?user, ?model, ModelText [88, 105, 110]]\<rparr>"
  let ?c2 = "?c\<lparr>fullText := [88, 105, 110, 99, 104, 224, 111, 33]\<rparr>"
  let ?call = "\<lparr>ttsText = [99, 104, 224, 111, 33], ttsResult = Pending\<rparr>"
  let ?s2 = "?s1\<lparr>pendingUpdates := [?user, ?model, ModelText [88, 105, 110],
                                       ModelText [88, 105, 110, 99, 104, 224, 111, 33]],
                 ttsCalls := [?call], isProcessingTts := True,
                 ttsAwaiting := Some \<lparr>promise = 0, jobMessageIndex = 1\<rparr>\<rparr>"
  let ?c3 = "?c\<lparr>fullText := [88, 105, 110, 99, 104, 224, 111, 33, 98, 7841, 110]\<rparr>"
  let ?s3 = "?s2\<lparr>pendingUpdates := [?user, ?model, ModelText [88, 105, 110],
                                       ModelText [88, 105, 110, 99, 104, 224, 111, 33],
                                       ModelText [88, 105, 110, 99, 104, 224, 111, 33,
                                                  98, 7841, 110]]\<rparr>"
  have 0: "handleSendMessage False [104, 105] None ?i = Some (?c, ?s0)"
    by (simp add: send_eval)
  have 1: "handleSendMessage_chunk False [88, 105, 110] (?c, ?s0) = (?c1, ?s1)"
    by (simp add: send_eval)
  have 2: "handleSendMessage_chunk False [99, 104, 224, 111, 33] (?c1, ?s1) = (?c2, ?s2)"
    by (simp add: send_eval)
  have 3: "handleSendMessage_chunk False [98, 7841, 110] (?c2, ?s2) = (?c3, ?s3)"
    by (simp add: send_eval)
  show ?thesis
    by (simp only: Let_def 0 1 2 3) (simp add: initialState_fields)
qed

text \<open>
  Claim C10 against the code. The gate of line 529 tests \<^verbatim>\<open>isAudioEnabled\<close> and
  \<^verbatim>\<open>isLiveSessionActive\<close> as the running call of \<^verbatim>\<open>handleSendMessage\<close> captured
  them when the message was sent. A send is started with audio enabled and no live
  session; then audio is toggled off (or a live session is started) while the reply is
  still streaming; the next chunk, \<^verbatim>\<open>Hello world.\<close>, creates a TTS job although
  audio output is disabled (or a live session is active) at that moment.
\<close>

theorem toggling_during_a_reply_does_not_stop_tts:
  "(let i = initialState (Some Running);
        c = \<lparr>cIsAudioEnabled = True, cIsLiveSessionActive = False, cMessagesLength = 1,
             fullText = []\<rparr>;
        s0 = i\<lparr>pendingUpdates :=
                 [Append \<lparr>role = User, msgText = [104, 105], imageData = None\<rparr>,
                  Append \<lparr>role = Model, msgText = [], imageData = None\<rparr>],
               isLoading := True\<rparr>;
        s1 = toggleAudio s0;
        r = handleSendMessage_chunk False (js ''Hello world.'') (c, s1);
        s2 = startLiveSession False s0;
        r' = handleSendMessage_chunk False (js ''Hello world.'') (c, s2)
    in handleSendMessage False [104, 105] None i = Some (c, s0)
       \<and> \<not> isAudioEnabled s1 \<and> ttsCalls s1 = []
       \<and> \<not> isAudioEnabled (snd r)
       \<and> ttsCalls (snd r) = [\<lparr>ttsText = js ''Hello world.'', ttsResult = Pending\<rparr>]
       \<and> ttsAwaiting (snd r) = Some \<lparr>promise = 0, jobMessageIndex = 1\<rparr>
       \<and> isLiveSessionActive s2 \<and> ttsCalls s2 = []
       \<and> isLiveSessionActive (snd r')
       \<and> ttsCalls (snd r') = [\<lparr>ttsText = js ''Hello world.'', ttsResult = Pending\<rparr>])"
proof -
  let ?i = "initialState (Some Running)"
  let ?c = "\<lparr>cIsAudioEnabled = True, cIsLiveSessionActive = False, cMessagesLength = 1,
             fullText = []\<rparr>"
  let ?user = "Append \<lparr>role = User, msgText = [104, 105], imageData = None\<rparr>"
  let ?model = "Append \<lparr>role = Model, msgText = [], imageData = None\<rparr>"
  let ?s0 = "?i\<lparr>pendingUpdates := [?user, ?model], isLoading := True\<rparr>"
  let ?s1 = "?s0\<lparr>isAudioEnabled := False\<rparr>"
  let ?s2 = "?s0\<lparr>isLiveSessionActive := True,
                 pendingUpdates := [?user, ?model,
                   Append \<lparr>role = User, msgText = ellipsis, imageData = None\<rparr>]\<rparr>"
  have 0: "handleSendMessage False [104, 105] None ?i = Some (?c, ?s0)"
    by (simp add: send_eval)
  have 1: "toggleAudio ?s0 = ?s1"
    by (simp add: send_eval)
  have 2: "startLiveSession False ?s0 = ?s2"
    by (simp add: startLiveSession_def send_eval)
  have a: "\<not> isAudioEnabled (snd (handleSendMessage_chunk False (js ''Hello world.'') (?c, ?s1)))"
    "ttsCalls (snd (handleSendMessage_chunk False (js ''Hello world.'') (?c, ?s1)))
       = [\<lparr>ttsText = js ''Hello world.'', ttsResult = Pending\<rparr>]"
    "ttsAwaiting (snd (handleSendMessage_chunk False (js ''Hello world.'') (?c, ?s1)))
       = Some \<lparr>promise = 0, jobMessageIndex = 1\<rparr>"
    by (simp_all add: send_eval js_def)
  have b: "isLiveSessionActive (snd (handleSendMessage_chunk False (js ''Hello world.'') (?c, ?s2)))"
    "ttsCalls (snd (handleSendMessage_chunk False (js ''Hello world.'') (?c, ?s2)))
       = [\<lparr>ttsText = js ''Hello world.'', ttsResult = Pending\<rparr>]"
    by (simp_all add: send_eval js_def)
  show ?thesis
    unfolding Let_def 0 1 2 using a b by (simp add: initialState_fields)
qed

section \<open>Live session: errors and turn completion\<close>

lemmas live_eval =
  step.simps startLiveSession_def getUserMedia_resolved_def onopen_def connect_resolved_def
  onerror_def stopLiveSession_def timerFired_def handleLiveMessage_def render_def
  applyUpdater_def updateLast_def lastUserMessage_def endsWith_def ellipsis_def
  setMessages_shape scheduleAudio_shape initialState_fields js_def Let_def

text \<open>
  Claim C7 against the code. A live session is started and becomes active (microphone
  granted, input context and worklet created, session connected); then the transport
  reports an error. \<^verbatim>\<open>onerror\<close> makes the session inactive, shows the error and
  sets the 5000 ms timer that clears it, but it releases nothing: the microphone stream,
  the input context, the worklet node and the session handle are all still held.
  \<^verbatim>\<open>stopLiveSession\<close>, on the same state, releases them.
\<close>

theorem transport_error_keeps_microphone:
  "(let s = run False True [StartLive, MicGranted, SessionOpen InputReady, SessionConnected]
              (initialState (Some Running));
        s1 = step False True SessionError s
    in isLiveSessionActive s \<and> liveSession s \<and> microphoneStream s \<and> inputAudioContext s
       \<and> audioWorkletNode s
       \<and> \<not> isLiveSessionActive s1 \<and> liveError s1 = Some serverError \<and> timers s1 = [5000]
       \<and> liveError (step False True (TimerFired 0) s1) = None
       \<and> microphoneStream s1 \<and> inputAudioContext s1 \<and> audioWorkletNode s1 \<and> liveSession s1
       \<and> \<not> microphoneStream (stopLiveSession s) \<and> \<not> inputAudioContext (stopLiveSession s))"
proof -
  let ?i = "initialState (Some Running)"
  let ?s = "?i\<lparr>isLiveSessionActive := True,
               pendingUpdates := [Append \<lparr>role = User, msgText = ellipsis, imageData = None\<rparr>],
               microphoneStream := True, inputAudioContext := True, audioWorkletNode := True,
               liveSession := True\<rparr>"
  let ?s1 = "?s\<lparr>isLiveSessionActive := False, liveError := Some serverError, timers := [5000]\<rparr>"
  have r: "run False True [StartLive, MicGranted, SessionOpen InputReady, SessionConnected] ?i = ?s"
    by (simp add: run_simps live_eval)
  have e: "step False True SessionError ?s = ?s1"
    by (simp add: live_eval)
  have t: "liveError (step False True (TimerFired 0) ?s1) = None"
    by (simp add: live_eval)
  have st: "\<not> microphoneStream (stopLiveSession ?s) \<and> \<not> inputAudioContext (stopLiveSession ?s)"
    by (simp add: live_eval)
  show ?thesis
    unfolding Let_def r e using t st by (simp add: initialState_fields)
qed

text \<open>
  Claim C8 against the code. The user's last message is displayed as \<^verbatim>\<open>toi dang...\<close>
  and the buffer holds \<^verbatim>\<open>toi dang\<close>; a server message brings the fragment \<^verbatim>\<open> o dau\<close>
  together with the turn-complete signal. The handler queues the updater that is to
  finalise the transcript and then, in the same run, empties both buffers; the updater
  reads the buffer when React runs it, at the next render, and finds it empty. After
  that render the user's last message has the empty text, not \<^verbatim>\<open>toi dang o dau\<close>.
  This is so whether or not React runs the first updater of the handler at the call.
\<close>

theorem turn_complete_reads_reset_buffer:
  "\<forall>eager.
     (let s0 = run eager True
                 [StartLive, Render,
                  SessionMessage \<lparr>inputTranscription = Some (js ''toi dang''),
                                  outputTranscription = None, inlineData = None,
                                  turnComplete = False\<rparr>,
                  Render]
                 (initialState (Some Running));
          s1 = step eager True
                 (SessionMessage \<lparr>inputTranscription = Some (js '' o dau''),
                                  outputTranscription = None, inlineData = None,
                                  turnComplete = True\<rparr>) s0;
          s2 = step eager True Render s1
      in lastUserMessage (messages s0) =
           Some \<lparr>role = User, msgText = js ''toi dang...'', imageData = None\<rparr>
         \<and> currentUserTranscription s0 = js ''toi dang''
         \<and> currentUserTranscription s1 = [] \<and> currentModelTranscription s1 = []
         \<and> lastUserMessage (messages s2) = Some \<lparr>role = User, msgText = [], imageData = None\<rparr>
         \<and> js ''toi dang o dau'' \<noteq> [])"
proof (intro allI)
  fix eager
  let ?i = "initialState (Some Running)"
  let ?g = "\<lparr>role = Model, msgText = greeting, imageData = None\<rparr>"
  let ?u = "\<lambda>t. \<lparr>role = User, msgText = t, imageData = None\<rparr>"
  let ?m1 = "\<lparr>inputTranscription = Some (js ''toi dang''), outputTranscription = None,
              inlineData = None, turnComplete = False\<rparr>"
  let ?m2 = "\<lparr>inputTranscription = Some (js '' o dau''), outputTranscription = None,
              inlineData = None, turnComplete = True\<rparr>"
  let ?a = "?i\<lparr>isLiveSessionActive := True, messages := [?g, ?u ellipsis]\<rparr>"
  let ?s0 = "?i\<lparr>isLiveSessionActive := True, messages := [?g, ?u (js ''toi dang...'')],
                currentUserTranscription := js ''toi dang''\<rparr>"
  let ?s2 = "?i\<lparr>isLiveSessionActive := True, messages := [?g, ?u []]\<rparr>"
  have 1: "step eager True Render (step eager True StartLive ?i) = ?a"
    by (cases eager) (simp_all add: live_eval)
  have 2: "step eager True Render (step eager True (SessionMessage ?m1) ?a) = ?s0"
    by (cases eager) (simp_all add: live_eval)
  have r0: "run eager True [StartLive, Render, SessionMessage ?m1, Render] ?i = ?s0"
    by (simp only: run_simps 1 2)
  have b: "currentUserTranscription (step eager True (SessionMessage ?m2) ?s0) = []"
    "currentModelTranscription (step eager True (SessionMessage ?m2) ?s0) = []"
    by (simp_all add: live_eval)
  have 3: "step eager True Render (step eager True (SessionMessage ?m2) ?s0) = ?s2"
    by (cases eager) (simp_all add: live_eval)
  show "let s0 = run eager True [StartLive, Render, SessionMessage ?m1, Render] ?i;
            s1 = step eager True (SessionMessage ?m2) s0;
            s2 = step eager True Render s1
        in lastUserMessage (messages s0) = Some (?u (js ''toi dang...''))
           \<and> currentUserTranscription s0 = js ''toi dang''
           \<and> currentUserTranscription s1 = [] \<and> currentModelTranscription s1 = []
           \<and> lastUserMessage (messages s2) = Some (?u [])
           \<and> js ''toi dang o dau'' \<noteq> []"
    unfolding Let_def r0 3 using b by (simp add: lastUserMessage_def js_def)
qed

text \<open>
  When the turn-complete signal comes alone, the outcome depends on React: if it runs
  the updater at the call (no update pending), the transcript is finalised with the
  buffer; if it queues the updater, the transcript becomes empty.
\<close>

lemma turn_complete_alone:
  "(let s0 = (initialState (Some Running))
               \<lparr>isLiveSessionActive := True,
                messages := [\<lparr>role = Model, msgText = greeting, imageData = None\<rparr>,
                             \<lparr>role = User, msgText = js ''toi dang...'', imageData = None\<rparr>],
                currentUserTranscription := js ''toi dang o dau''\<rparr>;
        done = \<lparr>inputTranscription = None, outputTranscription = None, inlineData = None,
                turnComplete = True\<rparr>
    in lastUserMessage (messages (render (handleLiveMessage True done s0))) =
         Some \<lparr>role = User, msgText = js ''toi dang o dau'', imageData = None\<rparr>
       \<and> lastUserMessage (messages (render (handleLiveMessage False done s0))) =
         Some \<lparr>role = User, msgText = [], imageData = None\<rparr>)"
  by (simp add: live_eval)

end
